theory Spec2Isabelle
  imports Main
begin

section \<open>Python string primitives used by the operator\<close>

text \<open>
  The operator only inspects the character \<open>/\<close> and the marker \<open>gs://\<close>, so a Python
  \<open>str\<close> is modelled as a \<open>string\<close> (a list of characters). The second argument of the
  three strip functions is the set of characters to remove, given as a string, as in Python.
\<close>

definition lstrip :: "string \<Rightarrow> string \<Rightarrow> string" where
  "lstrip s chars = dropWhile (\<lambda>c. c \<in> set chars) s"

definition rstrip :: "string \<Rightarrow> string \<Rightarrow> string" where
  "rstrip s chars = rev (dropWhile (\<lambda>c. c \<in> set chars) (rev s))"

definition strip :: "string \<Rightarrow> string \<Rightarrow> string" where
  "strip s chars = rstrip (lstrip s chars) chars"

definition startswith :: "string \<Rightarrow> string \<Rightarrow> bool" where
  "startswith s p = (take (length p) s = p)"

definition endswith :: "string \<Rightarrow> string \<Rightarrow> bool" where
  "endswith s p = (length p \<le> length s \<and> drop (length s - length p) s = p)"

text \<open>\<open>s.split(sep)\<close> for a one-character separator: never returns the empty list.\<close>

fun split :: "string \<Rightarrow> char \<Rightarrow> string list" where
  "split [] sep = [[]]"
| "split (c # cs) sep =
     (if c = sep then [] # split cs sep
      else (case split cs sep of [] \<Rightarrow> [[c]] | w # ws \<Rightarrow> (c # w) # ws))"

text \<open>\<open>sep.join(parts)\<close>.\<close>

fun join :: "string \<Rightarrow> string list \<Rightarrow> string" where
  "join sep [] = []"
| "join sep [x] = x"
| "join sep (x # y # ys) = x @ sep @ join sep (y # ys)"

section \<open>The operator object and its constructor\<close>

text \<open>
  The fields \<open>__init__\<close> stores. \<open>task_id\<close> goes to the base class and
  \<open>impersonation_chain\<close> is stored but never read; both are left out.
\<close>

record operator =
  gcp_conn_id :: string
  ftp_conn_id :: string
  move_object :: bool
  destination_path :: string
  destination_bucket :: string
  ftp_folder :: string
  ftp_file :: string

text \<open>\<open>_set_destination_path\<close> (an identifier cannot start with an underscore here).\<close>

definition set_destination_path :: "string option \<Rightarrow> string" where
  "set_destination_path path =
     (case path of
        Some p \<Rightarrow>
          (let p' = rstrip p ''/''
           in if startswith p' ''/'' then lstrip p' ''/'' else p')
      | None \<Rightarrow> '''')"

text \<open>\<open>_set_bucket_name\<close>; \<open>name[5:]\<close> is \<open>drop 5 name\<close>.\<close>

definition set_bucket_name :: "string \<Rightarrow> string" where
  "set_bucket_name name =
     (let bucket = (if \<not> startswith name ''gs://'' then name else drop 5 name)
      in strip bucket ''/'')"

text \<open>
  \<open>__init__\<close>. \<open>temp[0:-1]\<close> is \<open>butlast temp\<close>; \<open>temp[-1]\<close> is \<open>last temp\<close>, which
  cannot raise because \<open>split\<close> never returns the empty list (lemma \<open>split_not_Nil\<close>).
\<close>

definition init ::
  "string \<Rightarrow> string \<Rightarrow> string \<Rightarrow> string option \<Rightarrow> string \<Rightarrow> bool \<Rightarrow> operator" where
  "init ftp_conn_id' source_path destination_bucket' destination_path' gcp_conn_id'
        move_object' =
     (let temp = split source_path CHR ''/''
      in \<lparr> gcp_conn_id = gcp_conn_id',
           ftp_conn_id = ftp_conn_id',
           move_object = move_object',
           destination_path = set_destination_path destination_path',
           destination_bucket = set_bucket_name destination_bucket',
           ftp_folder = join ''/'' (butlast temp),
           ftp_file = last temp \<rparr>)"

text \<open>
  The normalisation of the destination prefix as the specification words it (strip all
  trailing slashes, then one leading slash), kept apart for comparison with the code.
\<close>

definition normalizeDestinationPrefix_spec :: "string option \<Rightarrow> string" where
  "normalizeDestinationPrefix_spec raw =
     (case raw of
        None \<Rightarrow> ''''
      | Some p \<Rightarrow>
          (let q = rstrip p ''/''
           in if startswith q ''/'' then drop 1 q else q))"

section \<open>The collaborators of \<open>execute\<close>\<close>

text \<open>
  \<open>execute\<close> talks to three collaborators: the secrets store, the storage client and the
  FTP server. None of them is code of the operator, so each call is a field of an
  environment that says how the call ends: \<open>None\<close> (or \<open>Inr\<close>) when it returns, \<open>Some e\<close>
  (or \<open>Inl e\<close>) when it raises an exception with text \<open>e\<close>. The calls made once per listed
  file also take the position of the file in the listing, so that an environment can let
  the same name succeed at one position and fail at another.
\<close>

type_synonym cause = string

record connection =
  host :: string
  login :: string
  password :: string

record env =
  get_connection_from_secrets :: "string \<Rightarrow> cause + connection"
  get_bucket :: "string \<Rightarrow> cause option"
  ftp_FTP :: "string \<Rightarrow> cause option"
  ftp_login :: "string \<Rightarrow> string \<Rightarrow> cause option"
  ftp_cwd :: "string \<Rightarrow> cause option"
  ftp_nlst :: "string \<Rightarrow> cause + string list"
  blob_open :: "nat \<Rightarrow> string \<Rightarrow> cause option"
  ftp_retrbinary :: "nat \<Rightarrow> string \<Rightarrow> cause option"
  blob_close :: "nat \<Rightarrow> string \<Rightarrow> cause option"
  ftp_delete :: "nat \<Rightarrow> string \<Rightarrow> cause option"
  ftp_quit :: "cause option"

text \<open>Every call to a collaborator is recorded, in order, whether it returns or raises.\<close>

datatype event =
    GetConnection string
  | GetBucket string
  | Connect string
  | Login string string
  | Cwd string
  | Nlst string
  | OpenBlob string
  | Retrbinary string
  | CloseBlob string
  | Delete string
  | Quit

datatype session_state = Disconnected | Connected | Closed

record world =
  events :: "event list"
  session :: session_state

text \<open>
  The four messages \<open>execute\<close> wraps in an \<open>AirflowException\<close>:
  \<open>Error connecting to {host}: {e}\<close>, \<open>Cannot login: {e}\<close>,
  \<open>Error in folder {ftp_folder}: {e}\<close> and \<open>Error reading file {filename}: {e}\<close>.
\<close>

datatype message =
    ErrorConnecting string cause
  | CannotLogin cause
  | ErrorInFolder string cause
  | ErrorReadingFile string cause

text \<open>
  What \<open>execute\<close> can raise: one of its own \<open>AirflowException\<close>s, Python's
  \<open>UnboundLocalError\<close> for a local variable read before it was assigned, or an exception
  of a collaborator that no handler encloses.
\<close>

datatype error =
    AirflowException message
  | UnboundLocalError string
  | Raised cause

text \<open>In Python \<open>UnboundLocalError\<close> is a subclass of \<open>NameError\<close>.\<close>

definition is_NameError :: "error \<Rightarrow> bool" where
  "is_NameError err = (case err of UnboundLocalError v \<Rightarrow> True | _ \<Rightarrow> False)"

definition record_event :: "event \<Rightarrow> world \<Rightarrow> world" where
  "record_event ev w = w\<lparr>events := events w @ [ev]\<rparr>"

text \<open>
  \<open>ftp.quit()\<close>. The FTP client sends \<open>QUIT\<close> and then closes the socket; when the
  command raises, the socket is not closed and the exception leaves \<open>quit\<close>. The operator
  guards none of its four calls, and makes at most one of them in a run.
\<close>

definition quit :: "env \<Rightarrow> world \<Rightarrow> cause option \<times> world" where
  "quit env w =
     (let w1 = record_event Quit w
      in case ftp_quit env of
           Some q \<Rightarrow> (Some q, w1)
         | None \<Rightarrow> (None, w1\<lparr>session := Closed\<rparr>))"

text \<open>
  The handlers of the login and of the change of directory (lines 93 and 94, 99 and 100):
  quit, then raise \<open>err\<close>. An exception of \<open>quit\<close> leaves the handler in its place.
\<close>

definition quit_then_raise :: "env \<Rightarrow> error \<Rightarrow> world \<Rightarrow> (error + unit) \<times> world" where
  "quit_then_raise env err w =
     (case quit env w of
        (Some q, w1) \<Rightarrow> (Inl (Raised q), w1)
      | (None, w1) \<Rightarrow> (Inl err, w1))"

section \<open>\<open>execute\<close>\<close>

text \<open>Lines 107 to 109: the name of the destination object.\<close>

definition file_dest :: "operator \<Rightarrow> string \<Rightarrow> string" where
  "file_dest self filename =
     (if length (destination_path self) > 0
      then destination_path self @ ''/'' @ filename
      else filename)"

text \<open>
  The body of the \<open>for\<close> loop for the file at position \<open>i\<close>. Leaving the \<open>with\<close> block
  closes the write stream, also when \<open>retrbinary\<close> raised; an exception of that close
  replaces the pending one. The result is the exception that leaves the body, if any.
\<close>

definition transfer_file ::
  "operator \<Rightarrow> env \<Rightarrow> nat \<Rightarrow> string \<Rightarrow> world \<Rightarrow> cause option \<times> world" where
  "transfer_file self env i filename w =
     (let dest = file_dest self filename;
          w1 = record_event (OpenBlob dest) w
      in case blob_open env i dest of
           Some e \<Rightarrow> (Some e, w1)
         | None \<Rightarrow>
             (let w2 = record_event (Retrbinary filename) w1;
                  w3 = record_event (CloseBlob dest) w2
              in case blob_close env i dest of
                   Some e' \<Rightarrow> (Some e', w3)
                 | None \<Rightarrow>
                     (case ftp_retrbinary env i filename of
                        Some e \<Rightarrow> (Some e, w3)
                      | None \<Rightarrow>
                          if move_object self
                          then (ftp_delete env i filename, record_event (Delete filename) w3)
                          else (None, w3))))"

text \<open>
  The \<open>for\<close> loop over the listing. When the body raises, the result carries the exception
  together with the value the variable \<open>filename\<close> has at that moment.
\<close>

fun transfer_files ::
  "operator \<Rightarrow> env \<Rightarrow> nat \<Rightarrow> string list \<Rightarrow> world \<Rightarrow> (cause \<times> string option) option \<times> world"
  where
  "transfer_files self env i [] w = (None, w)"
| "transfer_files self env i (filename # rest) w =
     (case transfer_file self env i filename w of
        (Some e, w') \<Rightarrow> (Some (e, Some filename), w')
      | (None, w') \<Rightarrow> transfer_files self env (Suc i) rest w')"

text \<open>
  The body of the last \<open>try\<close> (lines 105 to 120). When \<open>nlst\<close> itself raises, \<open>filename\<close>
  has not been assigned.
\<close>

definition try_transfer ::
  "operator \<Rightarrow> env \<Rightarrow> world \<Rightarrow> (cause \<times> string option) option \<times> world" where
  "try_transfer self env w =
     (let w1 = record_event (Nlst (ftp_file self)) w
      in case ftp_nlst env (ftp_file self) of
           Inl e \<Rightarrow> (Some (e, None), w1)
         | Inr names \<Rightarrow> transfer_files self env 0 names w1)"

text \<open>
  The handler of the last \<open>try\<close> (lines 121 to 123): quit, then build the message, which
  reads \<open>filename\<close>, and raise it.
\<close>

definition except_transfer ::
  "env \<Rightarrow> cause \<Rightarrow> string option \<Rightarrow> world \<Rightarrow> (error + unit) \<times> world" where
  "except_transfer env e filename w =
     (case quit env w of
        (Some q, w1) \<Rightarrow> (Inl (Raised q), w1)
      | (None, w1) \<Rightarrow>
          (case filename of
             None \<Rightarrow> (Inl (UnboundLocalError ''filename''), w1)
           | Some f \<Rightarrow> (Inl (AirflowException (ErrorReadingFile f e)), w1)))"

definition initial_world :: world where
  "initial_world = \<lparr>events = [], session = Disconnected\<rparr>"

text \<open>
  \<open>execute\<close>, from the lookup of the connection to the final \<open>quit\<close>. \<open>storage.Client()\<close>
  and \<open>get_bucket\<close> are one step; \<open>c.get_password()\<close> belongs to the login step, inside
  whose \<open>try\<close> it is evaluated. Logging has no effect on the control flow and is left out.
\<close>

definition execute :: "operator \<Rightarrow> env \<Rightarrow> (error + unit) \<times> world" where
  "execute self env =
     (let w1 = record_event (GetConnection (ftp_conn_id self)) initial_world
      in case get_connection_from_secrets env (ftp_conn_id self) of
           Inl e \<Rightarrow> (Inl (Raised e), w1)
         | Inr c \<Rightarrow>
     (let w2 = record_event (GetBucket (destination_bucket self)) w1
      in case get_bucket env (destination_bucket self) of
           Some e \<Rightarrow> (Inl (Raised e), w2)
         | None \<Rightarrow>
     (let w3 = record_event (Connect (host c)) w2
      in case ftp_FTP env (host c) of
           Some e \<Rightarrow> (Inl (AirflowException (ErrorConnecting (host c) e)), w3)
         | None \<Rightarrow>
     (let w4 = record_event (Login (login c) (password c)) (w3\<lparr>session := Connected\<rparr>)
      in case ftp_login env (login c) (password c) of
           Some e \<Rightarrow> quit_then_raise env (AirflowException (CannotLogin e)) w4
         | None \<Rightarrow>
     (let w5 = record_event (Cwd (ftp_folder self)) w4
      in case ftp_cwd env (ftp_folder self) of
           Some e \<Rightarrow>
             quit_then_raise env (AirflowException (ErrorInFolder (ftp_folder self) e)) w5
         | None \<Rightarrow>
     (case try_transfer self env w5 of
        (Some (e, filename), w6) \<Rightarrow> except_transfer env e filename w6
      | (None, w6) \<Rightarrow>
          (case quit env w6 of
             (Some q, w7) \<Rightarrow> (Inl (Raised q), w7)
           | (None, w7) \<Rightarrow> (Inr (), w7))))))))"

section \<open>Reading a run\<close>

definition opened_keys :: "event list \<Rightarrow> string list" where
  "opened_keys evs = concat (map (\<lambda>ev. case ev of OpenBlob k \<Rightarrow> [k] | _ \<Rightarrow> []) evs)"

definition retrieved :: "event list \<Rightarrow> string list" where
  "retrieved evs = concat (map (\<lambda>ev. case ev of Retrbinary n \<Rightarrow> [n] | _ \<Rightarrow> []) evs)"

definition deleted :: "event list \<Rightarrow> string list" where
  "deleted evs = concat (map (\<lambda>ev. case ev of Delete n \<Rightarrow> [n] | _ \<Rightarrow> []) evs)"

text \<open>The calls up to and including \<open>nlst\<close>, when each of them returns.\<close>

definition setup_events :: "operator \<Rightarrow> connection \<Rightarrow> event list" where
  "setup_events self c =
     [GetConnection (ftp_conn_id self), GetBucket (destination_bucket self),
      Connect (host c), Login (login c) (password c), Cwd (ftp_folder self),
      Nlst (ftp_file self)]"

text \<open>The calls of one pass through the loop body in which nothing raises.\<close>

definition file_events :: "operator \<Rightarrow> string \<Rightarrow> event list" where
  "file_events self filename =
     [OpenBlob (file_dest self filename), Retrbinary filename,
      CloseBlob (file_dest self filename)]
     @ (if move_object self then [Delete filename] else [])"

text \<open>
  What a handler that calls \<open>quit\<close> and then raises \<open>err\<close> propagates, and the state
  in which the call of \<open>quit\<close> leaves an open session.
\<close>

definition raised_after_quit :: "env \<Rightarrow> error \<Rightarrow> error" where
  "raised_after_quit env err = (case ftp_quit env of None \<Rightarrow> err | Some q \<Rightarrow> Raised q)"

definition session_after_quit :: "env \<Rightarrow> session_state" where
  "session_after_quit env = (case ftp_quit env of None \<Rightarrow> Closed | Some q \<Rightarrow> Connected)"

text \<open>The connection is looked up, the bucket is found and the FTP connection opens.\<close>

definition connect_succeeds :: "operator \<Rightarrow> env \<Rightarrow> bool" where
  "connect_succeeds self env =
     (case get_connection_from_secrets env (ftp_conn_id self) of
        Inl e \<Rightarrow> False
      | Inr c \<Rightarrow>
          get_bucket env (destination_bucket self) = None \<and> ftp_FTP env (host c) = None)"

text \<open>Every call before the listing returns; \<open>c\<close> is the connection that was looked up.\<close>

definition setup_ok :: "operator \<Rightarrow> env \<Rightarrow> connection \<Rightarrow> bool" where
  "setup_ok self env c =
     (get_connection_from_secrets env (ftp_conn_id self) = Inr c
      \<and> get_bucket env (destination_bucket self) = None
      \<and> ftp_FTP env (host c) = None
      \<and> ftp_login env (login c) (password c) = None
      \<and> ftp_cwd env (ftp_folder self) = None)"

text \<open>Every call made for the file at position \<open>i\<close> returns.\<close>

definition file_ok :: "operator \<Rightarrow> env \<Rightarrow> nat \<Rightarrow> string \<Rightarrow> bool" where
  "file_ok self env i filename =
     (blob_open env i (file_dest self filename) = None
      \<and> ftp_retrbinary env i filename = None
      \<and> blob_close env i (file_dest self filename) = None
      \<and> (move_object self \<longrightarrow> ftp_delete env i filename = None))"

text \<open>An environment in which every call returns and the listing is \<open>names\<close>.\<close>

definition env_ok :: "string list \<Rightarrow> env" where
  "env_ok names =
     \<lparr> get_connection_from_secrets =
         (\<lambda>cid. Inr \<lparr>host = ''ftp.example.org'', login = ''user'', password = ''pw''\<rparr>),
       get_bucket = (\<lambda>b. None),
       ftp_FTP = (\<lambda>h. None),
       ftp_login = (\<lambda>u p. None),
       ftp_cwd = (\<lambda>d. None),
       ftp_nlst = (\<lambda>pat. Inr names),
       blob_open = (\<lambda>i k. None),
       ftp_retrbinary = (\<lambda>i n. None),
       blob_close = (\<lambda>i k. None),
       ftp_delete = (\<lambda>i n. None),
       ftp_quit = None \<rparr>"

section \<open>Facts about the string primitives\<close>

lemma split_not_Nil: "split s sep \<noteq> []"
  by (induction s) (auto split: list.splits)

lemma split_no_sep: "sep \<notin> set s \<Longrightarrow> split s sep = [s]"
  by (induction s) auto

lemma split_append_sep:
  "sep \<notin> set f \<Longrightarrow> split (d @ sep # f) sep = split d sep @ [f]"
proof (induction d)
  case Nil
  then show ?case by (simp add: split_no_sep)
next
  case (Cons c d)
  then show ?case
    using split_not_Nil [of d sep] by (cases "split d sep") auto
qed

lemma join_Cons_char: "join sep ((c # w) # ws) = c # join sep (w # ws)"
  by (cases ws) auto

lemma join_split: "join [sep] (split s sep) = s"
proof (induction s)
  case Nil
  then show ?case by simp
next
  case (Cons c s)
  obtain w ws where ws: "split s sep = w # ws"
    using split_not_Nil [of s sep] by (cases "split s sep") auto
  show ?case using Cons ws by (auto simp: join_Cons_char)
qed

lemma startswith_single: "startswith s [c] \<longleftrightarrow> s \<noteq> [] \<and> hd s = c"
  by (cases s) (auto simp: startswith_def)

lemma endswith_single: "endswith s [c] \<longleftrightarrow> s \<noteq> [] \<and> last s = c"
proof (cases s rule: rev_cases)
  case Nil
  then show ?thesis by (simp add: endswith_def)
next
  case (snoc ys y)
  then show ?thesis by (auto simp: endswith_def)
qed

lemma lstrip_single: "lstrip s [c] = dropWhile (\<lambda>x. x = c) s"
  by (simp add: lstrip_def)

lemma rstrip_single: "rstrip s [c] = rev (dropWhile (\<lambda>x. x = c) (rev s))"
  by (simp add: rstrip_def)

lemma all_same_replicate: "\<forall>x\<in>set xs. x = c \<Longrightarrow> xs = replicate (length xs) c"
  by (induction xs) auto

lemma lstrip_decomp: "\<exists>n. s = replicate n c @ lstrip s [c]"
proof -
  have "\<forall>x\<in>set (takeWhile (\<lambda>x. x = c) s). x = c"
    by (auto dest: set_takeWhileD)
  then have "takeWhile (\<lambda>x. x = c) s = replicate (length (takeWhile (\<lambda>x. x = c) s)) c"
    by (rule all_same_replicate)
  moreover have "s = takeWhile (\<lambda>x. x = c) s @ dropWhile (\<lambda>x. x = c) s"
    by simp
  ultimately show ?thesis
    unfolding lstrip_single by metis
qed

lemma rstrip_decomp: "\<exists>m. s = rstrip s [c] @ replicate m c"
proof -
  obtain n where "rev s = replicate n c @ lstrip (rev s) [c]"
    using lstrip_decomp by blast
  then have "rev (rev s) = rev (replicate n c @ lstrip (rev s) [c])"
    by simp
  then have "s = rstrip s [c] @ replicate n c"
    by (simp add: rstrip_single lstrip_single)
  then show ?thesis ..
qed

lemma lstrip_no_lead: "\<not> startswith (lstrip s [c]) [c]"
  unfolding startswith_single lstrip_single
  using hd_dropWhile [of "\<lambda>x. x = c" s] by auto

lemma rstrip_no_trail: "\<not> endswith (rstrip s [c]) [c]"
  unfolding endswith_single rstrip_single
  using hd_dropWhile [of "\<lambda>x. x = c" "rev s"] by (auto simp: last_rev)

lemma lstrip_keeps_no_trail: "\<not> endswith s [c] \<Longrightarrow> \<not> endswith (lstrip s [c]) [c]"
  unfolding endswith_single lstrip_single
  by (induction s) (auto split: if_splits)

lemma rstrip_keeps_no_lead: "\<not> startswith s [c] \<Longrightarrow> \<not> startswith (rstrip s [c]) [c]"
proof -
  assume a: "\<not> startswith s [c]"
  obtain m where m: "s = rstrip s [c] @ replicate m c" using rstrip_decomp by blast
  show ?thesis
  proof
    assume "startswith (rstrip s [c]) [c]"
    then have "rstrip s [c] \<noteq> [] \<and> hd (rstrip s [c]) = c" by (simp add: startswith_single)
    then have "s \<noteq> [] \<and> hd s = c" using m by (metis hd_append2 append_is_Nil_conv)
    then show False using a by (simp add: startswith_single)
  qed
qed

lemma strip_no_lead: "\<not> startswith (strip s [c]) [c]"
  unfolding strip_def by (rule rstrip_keeps_no_lead) (rule lstrip_no_lead)

lemma strip_no_trail: "\<not> endswith (strip s [c]) [c]"
  unfolding strip_def by (rule rstrip_no_trail)

lemma strip_decomp: "\<exists>n m. s = replicate n c @ strip s [c] @ replicate m c"
proof -
  obtain n where n: "s = replicate n c @ lstrip s [c]" using lstrip_decomp by blast
  obtain m where m: "lstrip s [c] = rstrip (lstrip s [c]) [c] @ replicate m c"
    using rstrip_decomp by blast
  have "s = replicate n c @ strip s [c] @ replicate m c"
    unfolding strip_def using n m by metis
  then show ?thesis by blast
qed

lemma lstrip_id: "\<not> startswith s [c] \<Longrightarrow> lstrip s [c] = s"
  unfolding startswith_single lstrip_single by (cases s) auto

lemma rstrip_id: "\<not> endswith s [c] \<Longrightarrow> rstrip s [c] = s"
  unfolding endswith_single rstrip_single
  by (cases s rule: rev_cases) auto

lemma strip_id: "\<not> startswith s [c] \<Longrightarrow> \<not> endswith s [c] \<Longrightarrow> strip s [c] = s"
  by (simp add: strip_def lstrip_id rstrip_id)

lemma rstrip_all: "rstrip (replicate n c) [c] = []"
  by (simp add: rstrip_single)

lemma startswith_append: "startswith s p \<Longrightarrow> startswith (s @ t) p"
  unfolding startswith_def by (metis append_eq_conv_conj append.assoc)

lemma startswith_rstrip: "startswith (rstrip s [c]) p \<Longrightarrow> startswith s p"
  using rstrip_decomp [of s c] startswith_append by metis

lemma set_destination_path_Some:
  "set_destination_path (Some p) = lstrip (rstrip p ''/'') ''/''"
  by (simp add: set_destination_path_def Let_def lstrip_id)

lemma set_bucket_name_scheme: "set_bucket_name (''gs://'' @ r) = strip r ''/''"
  by (simp add: set_bucket_name_def startswith_def)

lemma set_bucket_name_bare:
  "\<not> startswith name ''gs://'' \<Longrightarrow> set_bucket_name name = strip name ''/''"
  by (simp add: set_bucket_name_def)

section \<open>Normalisation of the destination prefix and of the bucket name\<close>

text \<open>
  Claim C5, as amended. \<open>_set_destination_path\<close> returns the empty string when the path is
  absent; otherwise it strips every trailing \<open>/\<close> and then every leading \<open>/\<close> (Python's
  \<open>lstrip\<close> removes all of them, not one): the input is the result between two runs of
  slashes, the result neither starts nor ends with \<open>/\<close>, and a path of slashes only
  collapses to the empty string.
\<close>

theorem set_destination_path_strips_all:
  "set_destination_path None = ''''
   \<and> set_destination_path (Some p) = lstrip (rstrip p ''/'') ''/''
   \<and> (\<exists>n k. p = replicate n CHR ''/'' @ set_destination_path (Some p) @ replicate k CHR ''/'')
   \<and> \<not> startswith (set_destination_path (Some p)) ''/''
   \<and> \<not> endswith (set_destination_path (Some p)) ''/''
   \<and> set_destination_path (Some (replicate j CHR ''/'')) = ''''"
proof -
  have a: "set_destination_path None = ''''"
    by (simp add: set_destination_path_def)
  obtain k where k: "p = rstrip p ''/'' @ replicate k CHR ''/''"
    using rstrip_decomp by blast
  obtain n where n: "rstrip p ''/'' = replicate n CHR ''/'' @ lstrip (rstrip p ''/'') ''/''"
    using lstrip_decomp by blast
  have "p = replicate n CHR ''/'' @ set_destination_path (Some p) @ replicate k CHR ''/''"
    unfolding set_destination_path_Some using k n by (metis append.assoc)
  then have c: "\<exists>n k. p = replicate n CHR ''/'' @ set_destination_path (Some p) @ replicate k CHR ''/''"
    by blast
  have d: "\<not> startswith (set_destination_path (Some p)) ''/''"
    unfolding set_destination_path_Some by (rule lstrip_no_lead)
  have e: "\<not> endswith (set_destination_path (Some p)) ''/''"
    unfolding set_destination_path_Some
    by (rule lstrip_keeps_no_trail) (rule rstrip_no_trail)
  have f: "set_destination_path (Some (replicate j CHR ''/'')) = ''''"
    unfolding set_destination_path_Some by (simp add: rstrip_all lstrip_def)
  from a set_destination_path_Some c d e f show ?thesis by blast
qed

text \<open>
  Claim C5 as stated fails: for \<open>//a\<close> the code returns \<open>a\<close>, while stripping a single
  leading slash, as the claim words it, gives \<open>/a\<close>.
\<close>

theorem destination_path_single_slash_counterexample:
  "set_destination_path (Some ''//a'') = ''a''
   \<and> normalizeDestinationPrefix_spec (Some ''//a'') = ''/a''
   \<and> set_destination_path (Some ''//a'') \<noteq> normalizeDestinationPrefix_spec (Some ''//a'')"
  by (simp add: set_destination_path_def normalizeDestinationPrefix_spec_def
      startswith_def lstrip_def rstrip_def)

text \<open>
  Claim C7, as amended. For every raw bucket name without leading or trailing slash that
  does not itself start with \<open>gs://\<close>, \<open>_set_bucket_name\<close> gives the same result for
  \<open>gs://\<close> followed by the name as for the name, namely the name itself.
\<close>

theorem scheme_idempotence_bare:
  "\<not> startswith raw ''/'' \<Longrightarrow> \<not> endswith raw ''/'' \<Longrightarrow> \<not> startswith raw ''gs://''
   \<Longrightarrow> set_bucket_name (''gs://'' @ raw) = set_bucket_name raw
       \<and> set_bucket_name raw = raw"
proof -
  assume a: "\<not> startswith raw ''/''" and b: "\<not> endswith raw ''/''"
    and c: "\<not> startswith raw ''gs://''"
  have "set_bucket_name (''gs://'' @ raw) = strip raw ''/''"
    by (rule set_bucket_name_scheme)
  moreover have "set_bucket_name raw = strip raw ''/''"
    using c by (rule set_bucket_name_bare)
  moreover have "strip raw ''/'' = raw"
    using a b by (rule strip_id)
  ultimately show ?thesis by simp
qed

theorem scheme_idempotence_bare_witness:
  "\<not> startswith ''my-bucket'' ''/'' \<and> \<not> endswith ''my-bucket'' ''/''
   \<and> \<not> startswith ''my-bucket'' ''gs://''
   \<and> set_bucket_name (''gs://'' @ ''my-bucket'') = set_bucket_name ''my-bucket''
   \<and> set_bucket_name ''my-bucket'' = ''my-bucket''"
proof -
  have h1: "\<not> startswith ''my-bucket'' ''/''" by (simp add: startswith_def)
  have h2: "\<not> endswith ''my-bucket'' ''/''" by (simp add: endswith_def)
  have h3: "\<not> startswith ''my-bucket'' ''gs://''" by (simp add: startswith_def)
  show ?thesis using h1 h2 h3 scheme_idempotence_bare [OF h1 h2 h3] by simp
qed

text \<open>
  Claim C7 as stated fails when the raw name carries the marker itself: \<open>gs://x\<close> has no
  leading or trailing slash, it normalises to \<open>x\<close>, and \<open>gs://gs://x\<close> normalises to
  \<open>gs://x\<close>.
\<close>

theorem scheme_idempotence_counterexample:
  "\<not> startswith ''gs://x'' ''/'' \<and> \<not> endswith ''gs://x'' ''/''
   \<and> set_bucket_name (''gs://'' @ ''gs://x'') \<noteq> set_bucket_name ''gs://x''"
  by (simp add: set_bucket_name_def startswith_def endswith_def strip_def lstrip_def rstrip_def)

section \<open>Splitting the source path\<close>

text \<open>
  Claim C8. The constructor stores the last \<open>/\<close>-separated segment of the source path as
  the file pattern and the segments before it, joined with \<open>/\<close>, as the remote directory:
  a path without \<open>/\<close> gives the empty directory and the path as pattern, a path
  \<open>dir/name\<close> whose \<open>name\<close> has no \<open>/\<close> gives \<open>dir\<close> and \<open>name\<close>; in particular
  \<open>a/b/c*.txt\<close> gives \<open>a/b\<close> and \<open>c*.txt\<close>, and \<open>c*.txt\<close> gives the empty directory and
  \<open>c*.txt\<close>.
\<close>

theorem source_path_split:
  "(CHR ''/'' \<notin> set p \<longrightarrow>
      ftp_folder (init f p b d g m) = '''' \<and> ftp_file (init f p b d g m) = p)
   \<and> (CHR ''/'' \<notin> set name \<longrightarrow>
      ftp_folder (init f (dir @ ''/'' @ name) b d g m) = dir
      \<and> ftp_file (init f (dir @ ''/'' @ name) b d g m) = name)
   \<and> ftp_file (init f p b d g m) = last (split p CHR ''/'')
   \<and> ftp_folder (init f p b d g m) = join ''/'' (butlast (split p CHR ''/''))
   \<and> ftp_folder (init f ''a/b/c*.txt'' b d g m) = ''a/b''
   \<and> ftp_file (init f ''a/b/c*.txt'' b d g m) = ''c*.txt''
   \<and> ftp_folder (init f ''c*.txt'' b d g m) = ''''
   \<and> ftp_file (init f ''c*.txt'' b d g m) = ''c*.txt''"
proof -
  have a: "CHR ''/'' \<notin> set p \<longrightarrow>
      ftp_folder (init f p b d g m) = '''' \<and> ftp_file (init f p b d g m) = p"
    by (simp add: init_def Let_def split_no_sep)
  have b: "CHR ''/'' \<notin> set name \<longrightarrow>
      ftp_folder (init f (dir @ ''/'' @ name) b d g m) = dir
      \<and> ftp_file (init f (dir @ ''/'' @ name) b d g m) = name"
    by (simp add: init_def Let_def split_append_sep join_split)
  have c: "ftp_file (init f p b d g m) = last (split p CHR ''/'')"
    by (simp add: init_def Let_def)
  have d: "ftp_folder (init f p b d g m) = join ''/'' (butlast (split p CHR ''/''))"
    by (simp add: init_def Let_def)
  have e: "ftp_folder (init f ''a/b/c*.txt'' b d g m) = ''a/b''"
    by (simp add: init_def Let_def)
  have f: "ftp_file (init f ''a/b/c*.txt'' b d g m) = ''c*.txt''"
    by (simp add: init_def Let_def)
  have g: "ftp_folder (init f ''c*.txt'' b d g m) = ''''"
    by (simp add: init_def Let_def)
  have h: "ftp_file (init f ''c*.txt'' b d g m) = ''c*.txt''"
    by (simp add: init_def Let_def)
  from a b c d e f g h show ?thesis by blast
qed

theorem source_path_split_witness:
  "CHR ''/'' \<notin> set ''report.csv''
   \<and> ftp_folder (init ''ftp'' ''report.csv'' ''bkt'' None ''gcp'' False) = ''''
   \<and> ftp_file (init ''ftp'' ''report.csv'' ''bkt'' None ''gcp'' False) = ''report.csv''
   \<and> CHR ''/'' \<notin> set ''r*''
   \<and> ftp_folder (init ''ftp'' (''in/2024'' @ ''/'' @ ''r*'') ''bkt'' None ''gcp'' False) = ''in/2024''
   \<and> ftp_file (init ''ftp'' (''in/2024'' @ ''/'' @ ''r*'') ''bkt'' None ''gcp'' False) = ''r*''"
  using source_path_split [of "''report.csv''" "''ftp''" "''bkt''" None "''gcp''" False "''r*''" "''in/2024''"]
  by simp

section \<open>Facts about the transfer loop\<close>

lemma opened_keys_append: "opened_keys (a @ b) = opened_keys a @ opened_keys b"
  by (simp add: opened_keys_def)

lemma retrieved_append: "retrieved (a @ b) = retrieved a @ retrieved b"
  by (simp add: retrieved_def)

lemma transfer_file_ok:
  "file_ok self env i f \<Longrightarrow>
   transfer_file self env i f w = (None, w\<lparr>events := events w @ file_events self f\<rparr>)"
  by (simp add: file_ok_def transfer_file_def Let_def record_event_def file_events_def)

lemma transfer_file_events:
  assumes "transfer_file self env i f w = (r, w')"
  shows "session w' = session w \<and>
     (\<exists>evs. events w' = events w @ evs \<and> Quit \<notin> set evs
        \<and> opened_keys evs = [file_dest self f]
        \<and> (retrieved evs = [f] \<or> retrieved evs = [] \<and> r \<noteq> None))"
proof (cases "blob_open env i (file_dest self f)")
  case (Some e)
  with assms have "r = Some e" "w' = record_event (OpenBlob (file_dest self f)) w"
    by (simp_all add: transfer_file_def Let_def)
  then show ?thesis
    by (simp add: record_event_def opened_keys_def retrieved_def)
next
  case None
  with assms show ?thesis
    by (cases "blob_close env i (file_dest self f)"; cases "ftp_retrbinary env i f";
        cases "move_object self")
      (auto simp: transfer_file_def Let_def record_event_def opened_keys_def retrieved_def)
qed

lemma transfer_files_events:
  "transfer_files self env i xs w = (r, w') \<Longrightarrow>
   session w' = session w \<and>
   (\<exists>evs m k. events w' = events w @ evs \<and> Quit \<notin> set evs
      \<and> k \<le> m \<and> m \<le> length xs
      \<and> opened_keys evs = map (file_dest self) (take m xs)
      \<and> retrieved evs = take k xs
      \<and> (r = None \<longrightarrow> k = length xs)
      \<and> (\<forall>e fn. r = Some (e, fn) \<longrightarrow> fn \<noteq> None))"
proof (induction xs arbitrary: i w)
  case Nil
  then show ?case by (auto simp: opened_keys_def retrieved_def)
next
  case (Cons f rest)
  obtain r1 w1 where f1: "transfer_file self env i f w = (r1, w1)"
    by (cases "transfer_file self env i f w")
  from transfer_file_events [OF f1] obtain evs1 where
    s1: "session w1 = session w" and e1: "events w1 = events w @ evs1"
    and q1: "Quit \<notin> set evs1" and o1: "opened_keys evs1 = [file_dest self f]"
    and r1: "retrieved evs1 = [f] \<or> retrieved evs1 = [] \<and> r1 \<noteq> None"
    by blast
  show ?case
  proof (cases r1)
    case (Some e)
    with Cons.prems f1 have rw: "r = Some (e, Some f)" "w' = w1" by auto
    from r1 show ?thesis
    proof
      assume "retrieved evs1 = [f]"
      then have "events w' = events w @ evs1 \<and> Quit \<notin> set evs1
          \<and> (1::nat) \<le> 1 \<and> 1 \<le> length (f # rest)
          \<and> opened_keys evs1 = map (file_dest self) (take 1 (f # rest))
          \<and> retrieved evs1 = take 1 (f # rest)"
        using e1 q1 o1 rw by simp
      then show ?thesis using s1 rw by blast
    next
      assume "retrieved evs1 = [] \<and> r1 \<noteq> None"
      then have "events w' = events w @ evs1 \<and> Quit \<notin> set evs1
          \<and> (0::nat) \<le> 1 \<and> 1 \<le> length (f # rest)
          \<and> opened_keys evs1 = map (file_dest self) (take 1 (f # rest))
          \<and> retrieved evs1 = take 0 (f # rest)"
        using e1 q1 o1 rw by simp
      then show ?thesis using s1 rw by blast
    qed
  next
    case None
    with Cons.prems f1 have rest: "transfer_files self env (Suc i) rest w1 = (r, w')"
      by simp
    from None r1 have r1': "retrieved evs1 = [f]" by simp
    from Cons.IH [OF rest] obtain evs2 m k where
      s2: "session w' = session w1" and e2: "events w' = events w1 @ evs2"
      and q2: "Quit \<notin> set evs2" and km: "k \<le> m" "m \<le> length rest"
      and o2: "opened_keys evs2 = map (file_dest self) (take m rest)"
      and r2: "retrieved evs2 = take k rest"
      and n2: "r = None \<longrightarrow> k = length rest"
      and f2: "\<forall>e fn. r = Some (e, fn) \<longrightarrow> fn \<noteq> None"
      by blast
    have "events w' = events w @ (evs1 @ evs2) \<and> Quit \<notin> set (evs1 @ evs2)
        \<and> Suc k \<le> Suc m \<and> Suc m \<le> length (f # rest)
        \<and> opened_keys (evs1 @ evs2) = map (file_dest self) (take (Suc m) (f # rest))
        \<and> retrieved (evs1 @ evs2) = take (Suc k) (f # rest)
        \<and> (r = None \<longrightarrow> Suc k = length (f # rest))"
      using e1 e2 q1 q2 km o1 o2 r1' r2 n2
      by (simp add: opened_keys_append retrieved_append)
    then show ?thesis using s1 s2 f2 by (metis)
  qed
qed

lemma transfer_files_ok:
  "(\<forall>j<length xs. file_ok self env (i + j) (xs ! j)) \<Longrightarrow>
   transfer_files self env i xs w =
     (None, w\<lparr>events := events w @ concat (map (file_events self) xs)\<rparr>)"
proof (induction xs arbitrary: i w)
  case Nil
  then show ?case by simp
next
  case (Cons f rest)
  from Cons.prems have h: "file_ok self env i f" by force
  have t: "\<forall>j<length rest. file_ok self env (Suc i + j) (rest ! j)"
  proof (intro allI impI)
    fix j assume "j < length rest"
    then have "Suc j < length (f # rest)" by simp
    with Cons.prems have "file_ok self env (i + Suc j) ((f # rest) ! Suc j)" by blast
    then show "file_ok self env (Suc i + j) (rest ! j)" by simp
  qed
  show ?case
    by (simp add: transfer_file_ok [OF h] Cons.IH [OF t])
qed

lemma transfer_files_append:
  "transfer_files self env i (xs @ ys) w =
     (case transfer_files self env i xs w of
        (Some r, w') \<Rightarrow> (Some r, w')
      | (None, w') \<Rightarrow> transfer_files self env (i + length xs) ys w')"
  by (induction xs arbitrary: i w) (auto split: prod.splits option.splits)

section \<open>Facts about \<open>execute\<close>\<close>

lemma file_dest_eq:
  "file_dest self =
     (\<lambda>name. if destination_path self = [] then name
             else destination_path self @ ''/'' @ name)"
  by (simp add: file_dest_def fun_eq_iff)

lemma try_transfer_events:
  assumes "try_transfer self env w = (r, w')"
  shows "session w' = session w \<and>
     (\<exists>evs. events w' = events w @ Nlst (ftp_file self) # evs \<and> Quit \<notin> set evs
        \<and> (\<forall>names. ftp_nlst env (ftp_file self) = Inr names \<longrightarrow>
              (\<exists>m k. k \<le> m \<and> m \<le> length names
                 \<and> opened_keys evs = map (file_dest self) (take m names)
                 \<and> retrieved evs = take k names
                 \<and> (r = None \<longrightarrow> m = length names \<and> k = length names))))"
proof (cases "ftp_nlst env (ftp_file self)")
  case (Inl e)
  with assms have "w' = record_event (Nlst (ftp_file self)) w"
    by (simp add: try_transfer_def Let_def)
  then have "session w' = session w \<and> events w' = events w @ Nlst (ftp_file self) # []"
    by (simp add: record_event_def)
  with Inl show ?thesis by auto
next
  case (Inr names)
  with assms have
    t: "transfer_files self env 0 names (record_event (Nlst (ftp_file self)) w) = (r, w')"
    by (simp add: try_transfer_def Let_def)
  from transfer_files_events [OF t] obtain evs m k where
    s: "session w' = session (record_event (Nlst (ftp_file self)) w)"
    and e: "events w' = events (record_event (Nlst (ftp_file self)) w) @ evs"
    and q: "Quit \<notin> set evs" and km: "k \<le> m" "m \<le> length names"
    and o: "opened_keys evs = map (file_dest self) (take m names)"
    and rr: "retrieved evs = take k names"
    and n: "r = None \<longrightarrow> k = length names"
    by blast
  from km n have n': "r = None \<longrightarrow> m = length names \<and> k = length names" by auto
  have "session w' = session w" using s by (simp add: record_event_def)
  moreover have "events w' = events w @ Nlst (ftp_file self) # evs"
    using e by (simp add: record_event_def)
  ultimately show ?thesis using Inr q km o rr n' by auto
qed

lemma quit_eq:
  "quit env w =
     (ftp_quit env,
      w\<lparr>events := events w @ [Quit],
        session := (case ftp_quit env of None \<Rightarrow> Closed | Some q \<Rightarrow> session w)\<rparr>)"
  by (cases "ftp_quit env") (simp_all add: quit_def record_event_def Let_def)

lemma quit_then_raise_eq:
  "session w = Connected \<Longrightarrow>
   quit_then_raise env err w =
     (Inl (raised_after_quit env err),
      \<lparr>events = events w @ [Quit], session = session_after_quit env\<rparr>)"
  by (cases "ftp_quit env")
    (simp_all add: quit_then_raise_def quit_eq raised_after_quit_def session_after_quit_def)

lemma except_transfer_eq:
  "session w = Connected \<Longrightarrow>
   except_transfer env e fn w =
     (Inl (raised_after_quit env
        (case fn of None \<Rightarrow> UnboundLocalError ''filename''
         | Some f \<Rightarrow> AirflowException (ErrorReadingFile f e))),
      \<lparr>events = events w @ [Quit], session = session_after_quit env\<rparr>)"
  by (cases "ftp_quit env"; cases fn)
    (simp_all add: except_transfer_def quit_eq raised_after_quit_def session_after_quit_def)

lemma final_quit_eq:
  "session w = Connected \<Longrightarrow>
   (case quit env w of (Some q, w7) \<Rightarrow> (Inl (Raised q), w7) | (None, w7) \<Rightarrow> (Inr (), w7)) =
     ((case ftp_quit env of None \<Rightarrow> Inr () | Some q \<Rightarrow> Inl (Raised q)),
      \<lparr>events = events w @ [Quit], session = session_after_quit env\<rparr>)"
  by (cases "ftp_quit env") (simp_all add: quit_eq session_after_quit_def)

lemma execute_setup_ok:
  assumes "setup_ok self env c"
  shows "execute self env =
     (case try_transfer self env
             \<lparr>events = [GetConnection (ftp_conn_id self), GetBucket (destination_bucket self),
                        Connect (host c), Login (login c) (password c), Cwd (ftp_folder self)],
              session = Connected\<rparr> of
        (Some (e, fn), w6) \<Rightarrow> except_transfer env e fn w6
      | (None, w6) \<Rightarrow>
          (case quit env w6 of
             (Some q, w7) \<Rightarrow> (Inl (Raised q), w7)
           | (None, w7) \<Rightarrow> (Inr (), w7)))"
  using assms
  by (simp add: execute_def setup_ok_def Let_def record_event_def initial_world_def)

lemma execute_after_setup:
  assumes "setup_ok self env c"
    and "try_transfer self env
             \<lparr>events = [GetConnection (ftp_conn_id self), GetBucket (destination_bucket self),
                        Connect (host c), Login (login c) (password c), Cwd (ftp_folder self)],
              session = Connected\<rparr> = (r, w6)"
  shows "execute self env =
     ((case r of
         None \<Rightarrow> (case ftp_quit env of None \<Rightarrow> Inr () | Some q \<Rightarrow> Inl (Raised q))
       | Some (e, fn) \<Rightarrow>
           Inl (raised_after_quit env
             (case fn of None \<Rightarrow> UnboundLocalError ''filename''
              | Some f \<Rightarrow> AirflowException (ErrorReadingFile f e)))),
      \<lparr>events = events w6 @ [Quit], session = session_after_quit env\<rparr>)"
proof -
  have s: "session w6 = Connected"
    using try_transfer_events [OF assms(2)] by simp
  show ?thesis
    unfolding execute_setup_ok [OF assms(1)] assms(2)
    by (cases r) (auto simp: except_transfer_eq [OF s] final_quit_eq [OF s])
qed

lemma setup_events_no_quit: "Quit \<notin> set (setup_events self c)"
  by (simp add: setup_events_def)

lemma setup_ok_env_ok: "setup_ok self (env_ok names)
    \<lparr>host = ''ftp.example.org'', login = ''user'', password = ''pw''\<rparr>"
  by (simp add: setup_ok_def env_ok_def)

lemmas run_defs =
  execute_def try_transfer_def except_transfer_def quit_then_raise_def transfer_file_def
  file_dest_def record_event_def quit_def initial_world_def env_ok_def Let_def
  init_def set_destination_path_def set_bucket_name_def
  startswith_def lstrip_def rstrip_def strip_def

lemma after_quit_cases:
  "(ftp_quit env = None \<longrightarrow>
      raised_after_quit env err = err \<and> session_after_quit env = Closed)
   \<and> (\<forall>q. ftp_quit env = Some q \<longrightarrow>
      raised_after_quit env err = Raised q \<and> session_after_quit env = Connected)"
  by (simp add: raised_after_quit_def session_after_quit_def)

section \<open>Runs that reach the listing\<close>

text \<open>
  Claim C9, as amended. When every call before the listing returns and the listing is
  empty, \<open>execute\<close> opens no write stream, deletes nothing and calls \<open>quit\<close> exactly once,
  after the calls of the set-up. When that \<open>quit\<close> returns, the session is closed and
  \<open>execute\<close> returns normally; when \<open>quit\<close> itself raises, its exception leaves
  \<open>execute\<close> and the session stays open.
\<close>

theorem empty_listing_noop:
  assumes "setup_ok self env c" and "ftp_nlst env (ftp_file self) = Inr []"
  shows "(ftp_quit env = None \<longrightarrow>
            execute self env =
              (Inr (), \<lparr>events = setup_events self c @ [Quit], session = Closed\<rparr>))
       \<and> (\<forall>q. ftp_quit env = Some q \<longrightarrow>
            execute self env =
              (Inl (Raised q),
               \<lparr>events = setup_events self c @ [Quit], session = Connected\<rparr>))
       \<and> opened_keys (events (snd (execute self env))) = []
       \<and> deleted (events (snd (execute self env))) = []
       \<and> count_list (events (snd (execute self env))) Quit = 1"
proof -
  let ?w5 = "\<lparr>events = [GetConnection (ftp_conn_id self), GetBucket (destination_bucket self),
                Connect (host c), Login (login c) (password c), Cwd (ftp_folder self)],
              session = Connected\<rparr>"
  have t: "try_transfer self env ?w5 = (None, record_event (Nlst (ftp_file self)) ?w5)"
    using assms(2) by (simp add: try_transfer_def Let_def)
  have x: "execute self env =
      ((case ftp_quit env of None \<Rightarrow> Inr () | Some q \<Rightarrow> Inl (Raised q)),
       \<lparr>events = setup_events self c @ [Quit], session = session_after_quit env\<rparr>)"
    unfolding execute_after_setup [OF assms(1) t]
    by (simp add: record_event_def setup_events_def)
  show ?thesis
    unfolding x
    by (simp add: session_after_quit_def setup_events_def opened_keys_def deleted_def)
qed

theorem empty_listing_noop_witness:
  "setup_ok (init ''ftp'' ''out/*.csv'' ''gs://bkt/'' (Some ''in/'') ''gcp'' True) (env_ok [])
      \<lparr>host = ''ftp.example.org'', login = ''user'', password = ''pw''\<rparr>
   \<and> ftp_nlst (env_ok [])
       (ftp_file (init ''ftp'' ''out/*.csv'' ''gs://bkt/'' (Some ''in/'') ''gcp'' True)) = Inr []
   \<and> ftp_quit (env_ok []) = None
   \<and> fst (execute (init ''ftp'' ''out/*.csv'' ''gs://bkt/'' (Some ''in/'') ''gcp'' True)
        (env_ok [])) = Inr ()
   \<and> session (snd (execute (init ''ftp'' ''out/*.csv'' ''gs://bkt/'' (Some ''in/'') ''gcp'' True)
        (env_ok []))) = Closed
   \<and> opened_keys (events (snd (execute
        (init ''ftp'' ''out/*.csv'' ''gs://bkt/'' (Some ''in/'') ''gcp'' True) (env_ok [])))) = []
   \<and> count_list (events (snd (execute
        (init ''ftp'' ''out/*.csv'' ''gs://bkt/'' (Some ''in/'') ''gcp'' True) (env_ok []))))
        Quit = 1"
proof -
  have h1: "setup_ok (init ''ftp'' ''out/*.csv'' ''gs://bkt/'' (Some ''in/'') ''gcp'' True)
      (env_ok []) \<lparr>host = ''ftp.example.org'', login = ''user'', password = ''pw''\<rparr>"
    by (rule setup_ok_env_ok)
  have h2: "ftp_nlst (env_ok [])
       (ftp_file (init ''ftp'' ''out/*.csv'' ''gs://bkt/'' (Some ''in/'') ''gcp'' True)) = Inr []"
    by (simp add: env_ok_def)
  have h3: "ftp_quit (env_ok []) = None"
    by (simp add: env_ok_def)
  show ?thesis
    using h1 h2 h3 empty_listing_noop [OF h1 h2]
    by (simp add: setup_events_def opened_keys_def)
qed

text \<open>
  Claim C9 as stated fails when the final \<open>quit\<close> raises: the listing is empty, yet
  \<open>execute\<close> ends in the exception of \<open>quit\<close> and the session is not closed.
\<close>

theorem empty_listing_quit_raises_counterexample:
  "ftp_nlst ((env_ok [])\<lparr>ftp_quit := Some ''421 Timeout''\<rparr>)
      (ftp_file (init ''ftp'' ''out/*.csv'' ''bkt'' None ''gcp'' False)) = Inr []
   \<and> execute (init ''ftp'' ''out/*.csv'' ''bkt'' None ''gcp'' False)
        ((env_ok [])\<lparr>ftp_quit := Some ''421 Timeout''\<rparr>) =
       (Inl (Raised ''421 Timeout''),
        \<lparr>events = [GetConnection ''ftp'', GetBucket ''bkt'', Connect ''ftp.example.org'',
                   Login ''user'' ''pw'', Cwd ''out'', Nlst ''*.csv'', Quit],
         session = Connected\<rparr>)"
  by (simp add: run_defs)

text \<open>
  Claim C10, as amended. When every call before the listing returns and \<open>nlst\<close> itself
  raises, the handler calls \<open>quit\<close>. When \<open>quit\<close> returns, the session is closed and the
  handler raises \<open>UnboundLocalError\<close> for \<open>filename\<close>, a \<open>NameError\<close>, while building
  its message; when \<open>quit\<close> itself raises, its exception leaves \<open>execute\<close> instead and
  the session stays open. In neither case does the run end in an \<open>AirflowException\<close>.
\<close>

theorem nlst_failure_raises_NameError:
  assumes "setup_ok self env c" and "ftp_nlst env (ftp_file self) = Inl e"
  shows "(ftp_quit env = None \<longrightarrow>
            execute self env =
              (Inl (UnboundLocalError ''filename''),
               \<lparr>events = setup_events self c @ [Quit], session = Closed\<rparr>))
       \<and> (\<forall>q. ftp_quit env = Some q \<longrightarrow>
            execute self env =
              (Inl (Raised q),
               \<lparr>events = setup_events self c @ [Quit], session = Connected\<rparr>))
       \<and> is_NameError (UnboundLocalError ''filename'')
       \<and> (\<forall>m. fst (execute self env) \<noteq> Inl (AirflowException m))"
proof -
  let ?w5 = "\<lparr>events = [GetConnection (ftp_conn_id self), GetBucket (destination_bucket self),
                Connect (host c), Login (login c) (password c), Cwd (ftp_folder self)],
              session = Connected\<rparr>"
  have t: "try_transfer self env ?w5 = (Some (e, None), record_event (Nlst (ftp_file self)) ?w5)"
    using assms(2) by (simp add: try_transfer_def Let_def)
  have x: "execute self env =
      (Inl (raised_after_quit env (UnboundLocalError ''filename'')),
       \<lparr>events = setup_events self c @ [Quit], session = session_after_quit env\<rparr>)"
    unfolding execute_after_setup [OF assms(1) t]
    by (simp add: record_event_def setup_events_def)
  show ?thesis
    unfolding x
    by (cases "ftp_quit env")
      (simp_all add: session_after_quit_def raised_after_quit_def is_NameError_def)
qed

theorem nlst_failure_raises_NameError_witness:
  "setup_ok (init ''ftp'' ''out/*.csv'' ''bkt'' None ''gcp'' False)
      ((env_ok [])\<lparr>ftp_nlst := (\<lambda>pat. Inl ''550 No files found'')\<rparr>)
      \<lparr>host = ''ftp.example.org'', login = ''user'', password = ''pw''\<rparr>
   \<and> ftp_quit ((env_ok [])\<lparr>ftp_nlst := (\<lambda>pat. Inl ''550 No files found'')\<rparr>) = None
   \<and> fst (execute (init ''ftp'' ''out/*.csv'' ''bkt'' None ''gcp'' False)
        ((env_ok [])\<lparr>ftp_nlst := (\<lambda>pat. Inl ''550 No files found'')\<rparr>))
      = Inl (UnboundLocalError ''filename'')
   \<and> last (events (snd (execute (init ''ftp'' ''out/*.csv'' ''bkt'' None ''gcp'' False)
        ((env_ok [])\<lparr>ftp_nlst := (\<lambda>pat. Inl ''550 No files found'')\<rparr>)))) = Quit
   \<and> session (snd (execute (init ''ftp'' ''out/*.csv'' ''bkt'' None ''gcp'' False)
        ((env_ok [])\<lparr>ftp_nlst := (\<lambda>pat. Inl ''550 No files found'')\<rparr>))) = Closed"
proof -
  have h1: "setup_ok (init ''ftp'' ''out/*.csv'' ''bkt'' None ''gcp'' False)
      ((env_ok [])\<lparr>ftp_nlst := (\<lambda>pat. Inl ''550 No files found'')\<rparr>)
      \<lparr>host = ''ftp.example.org'', login = ''user'', password = ''pw''\<rparr>"
    by (simp add: setup_ok_def env_ok_def)
  have h2: "ftp_nlst ((env_ok [])\<lparr>ftp_nlst := (\<lambda>pat. Inl ''550 No files found'')\<rparr>)
      (ftp_file (init ''ftp'' ''out/*.csv'' ''bkt'' None ''gcp'' False))
      = Inl ''550 No files found''"
    by simp
  have h3: "ftp_quit ((env_ok [])\<lparr>ftp_nlst := (\<lambda>pat. Inl ''550 No files found'')\<rparr>) = None"
    by (simp add: env_ok_def)
  show ?thesis
    using h1 h3 nlst_failure_raises_NameError [OF h1 h2]
    by (simp add: setup_events_def)
qed

text \<open>
  Claim C10 as stated fails when the \<open>quit\<close> of the handler raises: the message is never
  built, and the exception of \<open>quit\<close>, which is no \<open>NameError\<close>, is what propagates.
\<close>

theorem nlst_failure_quit_raises_counterexample:
  "ftp_nlst ((env_ok [])\<lparr>ftp_nlst := (\<lambda>pat. Inl ''421 Timeout''),
                          ftp_quit := Some ''[Errno 32] Broken pipe''\<rparr>)
      (ftp_file (init ''ftp'' ''out/*.csv'' ''bkt'' None ''gcp'' False)) = Inl ''421 Timeout''
   \<and> execute (init ''ftp'' ''out/*.csv'' ''bkt'' None ''gcp'' False)
        ((env_ok [])\<lparr>ftp_nlst := (\<lambda>pat. Inl ''421 Timeout''),
                     ftp_quit := Some ''[Errno 32] Broken pipe''\<rparr>) =
       (Inl (Raised ''[Errno 32] Broken pipe''),
        \<lparr>events = [GetConnection ''ftp'', GetBucket ''bkt'', Connect ''ftp.example.org'',
                   Login ''user'' ''pw'', Cwd ''out'', Nlst ''*.csv'', Quit],
         session = Connected\<rparr>)
   \<and> \<not> is_NameError (Raised ''[Errno 32] Broken pipe'')"
  by (simp add: run_defs is_NameError_def)

section \<open>Failure inside the loop\<close>

lemma opened_keys_file_events:
  "opened_keys (concat (map (file_events self) xs)) = map (file_dest self) xs"
  by (induction xs) (simp_all add: opened_keys_def file_events_def)

lemma retrieved_file_events:
  "retrieved (concat (map (file_events self) xs)) = xs"
  by (induction xs) (simp_all add: retrieved_def file_events_def)

lemma file_events_no_quit: "Quit \<notin> set (concat (map (file_events self) xs))"
  by (induction xs) (simp_all add: file_events_def)

lemma transfer_files_fail_at:
  assumes "i < length names" and "\<forall>j<i. file_ok self env j (names ! j)"
    and "transfer_file self env i (names ! i)
           (w\<lparr>events := events w @ concat (map (file_events self) (take i names))\<rparr>)
         = (Some e, w')"
  shows "transfer_files self env 0 names w = (Some (e, Some (names ! i)), w')"
proof -
  have split: "names = take i names @ names ! i # drop (Suc i) names"
    using assms(1) by (simp add: id_take_nth_drop)
  have len: "length (take i names) = i" using assms(1) by simp
  have pre: "\<forall>j<length (take i names). file_ok self env (0 + j) (take i names ! j)"
    using assms(2) by simp
  have "transfer_files self env 0 (take i names @ names ! i # drop (Suc i) names) w
      = (Some (e, Some (names ! i)), w')"
    unfolding transfer_files_append transfer_files_ok [OF pre] len
    using assms(3) by simp
  with split show ?thesis by simp
qed

lemma transfer_file_fails:
  assumes "\<not> file_ok self env i f"
  shows "\<exists>cause evs.
      transfer_file self env i f w = (Some cause, w\<lparr>events := events w @ evs\<rparr>)
      \<and> Quit \<notin> set evs
      \<and> (\<forall>e. blob_open env i (file_dest self f) = Some e \<longrightarrow> cause = e)
      \<and> (\<forall>e. blob_open env i (file_dest self f) = None
              \<and> blob_close env i (file_dest self f) = Some e \<longrightarrow> cause = e)
      \<and> (\<forall>e. blob_open env i (file_dest self f) = None
              \<and> blob_close env i (file_dest self f) = None
              \<and> ftp_retrbinary env i f = Some e \<longrightarrow> cause = e)
      \<and> (\<forall>e. blob_open env i (file_dest self f) = None
              \<and> blob_close env i (file_dest self f) = None
              \<and> ftp_retrbinary env i f = None
              \<and> ftp_delete env i f = Some e \<longrightarrow> cause = e)"
proof (cases "blob_open env i (file_dest self f)")
  case (Some e)
  then have "transfer_file self env i f w
      = (Some e, w\<lparr>events := events w @ [OpenBlob (file_dest self f)]\<rparr>)"
    by (simp add: transfer_file_def Let_def record_event_def)
  with Some show ?thesis by auto
next
  case o: None
  show ?thesis
  proof (cases "blob_close env i (file_dest self f)")
    case (Some e)
    with o have "transfer_file self env i f w
        = (Some e, w\<lparr>events := events w @ [OpenBlob (file_dest self f), Retrbinary f,
                                            CloseBlob (file_dest self f)]\<rparr>)"
      by (simp add: transfer_file_def Let_def record_event_def)
    with o Some show ?thesis by auto
  next
    case c: None
    show ?thesis
    proof (cases "ftp_retrbinary env i f")
      case (Some e)
      with o c have "transfer_file self env i f w
          = (Some e, w\<lparr>events := events w @ [OpenBlob (file_dest self f), Retrbinary f,
                                              CloseBlob (file_dest self f)]\<rparr>)"
        by (simp add: transfer_file_def Let_def record_event_def)
      with o c Some show ?thesis by auto
    next
      case r: None
      from assms o c r obtain e where m: "move_object self" and d: "ftp_delete env i f = Some e"
        by (auto simp: file_ok_def)
      with o c r have "transfer_file self env i f w
          = (Some e, w\<lparr>events := events w @ [OpenBlob (file_dest self f), Retrbinary f,
                                              CloseBlob (file_dest self f), Delete f]\<rparr>)"
        by (simp add: transfer_file_def Let_def record_event_def)
      with o c r d show ?thesis by auto
    qed
  qed
qed

lemma execute_loop_failure:
  assumes ok: "setup_ok self env c" and n: "ftp_nlst env (ftp_file self) = Inr names"
    and i: "i < length names" and pre: "\<forall>j<i. file_ok self env j (names ! j)"
    and t: "transfer_file self env i (names ! i)
        (\<lparr>events = setup_events self c, session = Connected\<rparr>
           \<lparr>events := setup_events self c @ concat (map (file_events self) (take i names))\<rparr>)
        = (Some cause,
           \<lparr>events = setup_events self c @ concat (map (file_events self) (take i names)) @ evs,
            session = Connected\<rparr>)"
  shows "execute self env =
      (Inl (raised_after_quit env (AirflowException (ErrorReadingFile (names ! i) cause))),
       \<lparr>events = setup_events self c @ concat (map (file_events self) (take i names))
                  @ evs @ [Quit],
        session = session_after_quit env\<rparr>)"
proof -
  let ?w5 = "\<lparr>events = [GetConnection (ftp_conn_id self), GetBucket (destination_bucket self),
                Connect (host c), Login (login c) (password c), Cwd (ftp_folder self)],
              session = Connected\<rparr>"
  let ?w6 = "\<lparr>events = setup_events self c, session = Connected\<rparr>"
  have w6: "record_event (Nlst (ftp_file self)) ?w5 = ?w6"
    by (simp add: record_event_def setup_events_def)
  have t': "transfer_file self env i (names ! i)
      (?w6\<lparr>events := events ?w6 @ concat (map (file_events self) (take i names))\<rparr>)
      = (Some cause,
         \<lparr>events = setup_events self c @ concat (map (file_events self) (take i names)) @ evs,
          session = Connected\<rparr>)"
    using t by simp
  have "try_transfer self env ?w5 = transfer_files self env 0 names ?w6"
    using n by (simp add: try_transfer_def Let_def w6)
  also have "\<dots> = (Some (cause, Some (names ! i)),
      \<lparr>events = setup_events self c @ concat (map (file_events self) (take i names)) @ evs,
        session = Connected\<rparr>)"
    by (rule transfer_files_fail_at [OF i pre t'])
  finally have tt: "try_transfer self env ?w5 = (Some (cause, Some (names ! i)),
      \<lparr>events = setup_events self c @ concat (map (file_events self) (take i names)) @ evs,
        session = Connected\<rparr>)" .
  show ?thesis
    unfolding execute_after_setup [OF ok tt] by simp
qed

section \<open>Closing the session on failure\<close>

text \<open>
  Claim C3, as amended. Let the connection be looked up and the bucket be found. When
  \<open>FTP(host)\<close> raises, \<open>execute\<close> ends in the connection error, no session exists and
  \<open>quit\<close> is not called. When the login raises, or the change of directory, or \<open>nlst\<close>,
  or any call made for the first listed file that is not transferred in full (opening the
  write stream, retrieving, closing the stream, deleting), \<open>execute\<close> calls \<open>quit\<close>
  exactly once, as its last call. When that \<open>quit\<close> returns, the session is closed and
  the error of the failed stage propagates: \<open>Cannot login\<close>, \<open>Error in folder\<close>, the
  \<open>UnboundLocalError\<close> of the listing, or \<open>Error reading file\<close> with the name of the
  file and the exception of the call that failed. When \<open>quit\<close> itself raises, its
  exception propagates instead and the session stays open.
\<close>

theorem failure_after_connect_quits_once:
  assumes "get_connection_from_secrets env (ftp_conn_id self) = Inr c"
    and "get_bucket env (destination_bucket self) = None"
  shows "(\<forall>e. ftp_FTP env (host c) = Some e \<longrightarrow>
            execute self env =
              (Inl (AirflowException (ErrorConnecting (host c) e)),
               \<lparr>events = [GetConnection (ftp_conn_id self),
                           GetBucket (destination_bucket self), Connect (host c)],
                 session = Disconnected\<rparr>))
       \<and> (\<forall>e. ftp_FTP env (host c) = None
               \<and> ftp_login env (login c) (password c) = Some e \<longrightarrow>
            execute self env =
              (Inl (raised_after_quit env (AirflowException (CannotLogin e))),
               \<lparr>events = [GetConnection (ftp_conn_id self),
                           GetBucket (destination_bucket self), Connect (host c),
                           Login (login c) (password c), Quit],
                 session = session_after_quit env\<rparr>))
       \<and> (\<forall>e. ftp_FTP env (host c) = None
               \<and> ftp_login env (login c) (password c) = None
               \<and> ftp_cwd env (ftp_folder self) = Some e \<longrightarrow>
            execute self env =
              (Inl (raised_after_quit env
                 (AirflowException (ErrorInFolder (ftp_folder self) e))),
               \<lparr>events = [GetConnection (ftp_conn_id self),
                           GetBucket (destination_bucket self), Connect (host c),
                           Login (login c) (password c), Cwd (ftp_folder self), Quit],
                 session = session_after_quit env\<rparr>))
       \<and> (\<forall>e. setup_ok self env c \<and> ftp_nlst env (ftp_file self) = Inl e \<longrightarrow>
            execute self env =
              (Inl (raised_after_quit env (UnboundLocalError ''filename'')),
               \<lparr>events = setup_events self c @ [Quit],
                 session = session_after_quit env\<rparr>))
       \<and> (\<forall>names i. setup_ok self env c \<and> ftp_nlst env (ftp_file self) = Inr names
               \<and> i < length names \<and> (\<forall>j<i. file_ok self env j (names ! j))
               \<and> \<not> file_ok self env i (names ! i) \<longrightarrow>
            (\<exists>cause evs.
               execute self env =
                 (Inl (raised_after_quit env
                    (AirflowException (ErrorReadingFile (names ! i) cause))),
                  \<lparr>events = setup_events self c
                       @ concat (map (file_events self) (take i names)) @ evs @ [Quit],
                    session = session_after_quit env\<rparr>)
               \<and> Quit \<notin> set evs
               \<and> (\<forall>e. blob_open env i (file_dest self (names ! i)) = Some e
                      \<longrightarrow> cause = e)
               \<and> (\<forall>e. blob_open env i (file_dest self (names ! i)) = None
                      \<and> blob_close env i (file_dest self (names ! i)) = Some e
                      \<longrightarrow> cause = e)
               \<and> (\<forall>e. blob_open env i (file_dest self (names ! i)) = None
                      \<and> blob_close env i (file_dest self (names ! i)) = None
                      \<and> ftp_retrbinary env i (names ! i) = Some e
                      \<longrightarrow> cause = e)
               \<and> (\<forall>e. blob_open env i (file_dest self (names ! i)) = None
                      \<and> blob_close env i (file_dest self (names ! i)) = None
                      \<and> ftp_retrbinary env i (names ! i) = None
                      \<and> ftp_delete env i (names ! i) = Some e
                      \<longrightarrow> cause = e)))
       \<and> (ftp_quit env = None \<longrightarrow>
            raised_after_quit env err = err \<and> session_after_quit env = Closed)
       \<and> (\<forall>q. ftp_quit env = Some q \<longrightarrow>
            raised_after_quit env err = Raised q \<and> session_after_quit env = Connected)"
proof -
  have a: "\<forall>e. ftp_FTP env (host c) = Some e \<longrightarrow>
            execute self env =
              (Inl (AirflowException (ErrorConnecting (host c) e)),
               \<lparr>events = [GetConnection (ftp_conn_id self),
                           GetBucket (destination_bucket self), Connect (host c)],
                 session = Disconnected\<rparr>)"
    using assms
    by (simp add: execute_def Let_def record_event_def initial_world_def)
  have b: "\<forall>e. ftp_FTP env (host c) = None
               \<and> ftp_login env (login c) (password c) = Some e \<longrightarrow>
            execute self env =
              (Inl (raised_after_quit env (AirflowException (CannotLogin e))),
               \<lparr>events = [GetConnection (ftp_conn_id self),
                           GetBucket (destination_bucket self), Connect (host c),
                           Login (login c) (password c), Quit],
                 session = session_after_quit env\<rparr>)"
    using assms
    by (simp add: execute_def Let_def record_event_def initial_world_def quit_then_raise_eq)
  have c: "\<forall>e. ftp_FTP env (host c) = None
               \<and> ftp_login env (login c) (password c) = None
               \<and> ftp_cwd env (ftp_folder self) = Some e \<longrightarrow>
            execute self env =
              (Inl (raised_after_quit env
                 (AirflowException (ErrorInFolder (ftp_folder self) e))),
               \<lparr>events = [GetConnection (ftp_conn_id self),
                           GetBucket (destination_bucket self), Connect (host c),
                           Login (login c) (password c), Cwd (ftp_folder self), Quit],
                 session = session_after_quit env\<rparr>)"
    using assms
    by (simp add: execute_def Let_def record_event_def initial_world_def quit_then_raise_eq)
  have d: "\<forall>e. setup_ok self env c \<and> ftp_nlst env (ftp_file self) = Inl e \<longrightarrow>
            execute self env =
              (Inl (raised_after_quit env (UnboundLocalError ''filename'')),
               \<lparr>events = setup_events self c @ [Quit],
                 session = session_after_quit env\<rparr>)"
  proof (intro allI impI)
    fix e assume h: "setup_ok self env c \<and> ftp_nlst env (ftp_file self) = Inl e"
    let ?w5 = "\<lparr>events = [GetConnection (ftp_conn_id self),
                  GetBucket (destination_bucket self), Connect (host c),
                  Login (login c) (password c), Cwd (ftp_folder self)],
                session = Connected\<rparr>"
    have t: "try_transfer self env ?w5
        = (Some (e, None), record_event (Nlst (ftp_file self)) ?w5)"
      using h by (simp add: try_transfer_def Let_def)
    from h have ok: "setup_ok self env c" by simp
    show "execute self env =
              (Inl (raised_after_quit env (UnboundLocalError ''filename'')),
               \<lparr>events = setup_events self c @ [Quit],
                 session = session_after_quit env\<rparr>)"
      unfolding execute_after_setup [OF ok t]
      by (simp add: record_event_def setup_events_def)
  qed
  have e: "\<forall>names i. setup_ok self env c \<and> ftp_nlst env (ftp_file self) = Inr names
               \<and> i < length names \<and> (\<forall>j<i. file_ok self env j (names ! j))
               \<and> \<not> file_ok self env i (names ! i) \<longrightarrow>
            (\<exists>cause evs.
               execute self env =
                 (Inl (raised_after_quit env
                    (AirflowException (ErrorReadingFile (names ! i) cause))),
                  \<lparr>events = setup_events self c
                       @ concat (map (file_events self) (take i names)) @ evs @ [Quit],
                    session = session_after_quit env\<rparr>)
               \<and> Quit \<notin> set evs
               \<and> (\<forall>e. blob_open env i (file_dest self (names ! i)) = Some e
                      \<longrightarrow> cause = e)
               \<and> (\<forall>e. blob_open env i (file_dest self (names ! i)) = None
                      \<and> blob_close env i (file_dest self (names ! i)) = Some e
                      \<longrightarrow> cause = e)
               \<and> (\<forall>e. blob_open env i (file_dest self (names ! i)) = None
                      \<and> blob_close env i (file_dest self (names ! i)) = None
                      \<and> ftp_retrbinary env i (names ! i) = Some e
                      \<longrightarrow> cause = e)
               \<and> (\<forall>e. blob_open env i (file_dest self (names ! i)) = None
                      \<and> blob_close env i (file_dest self (names ! i)) = None
                      \<and> ftp_retrbinary env i (names ! i) = None
                      \<and> ftp_delete env i (names ! i) = Some e
                      \<longrightarrow> cause = e))"
  proof (intro allI impI)
    fix names i
    assume h: "setup_ok self env c \<and> ftp_nlst env (ftp_file self) = Inr names
               \<and> i < length names \<and> (\<forall>j<i. file_ok self env j (names ! j))
               \<and> \<not> file_ok self env i (names ! i)"
    let ?wi = "\<lparr>events = setup_events self c, session = Connected\<rparr>
           \<lparr>events := setup_events self c @ concat (map (file_events self) (take i names))\<rparr>"
    from h have nf: "\<not> file_ok self env i (names ! i)" by simp
    from transfer_file_fails [OF nf, of ?wi] obtain cause evs where
      t: "transfer_file self env i (names ! i) ?wi
            = (Some cause, ?wi\<lparr>events := events ?wi @ evs\<rparr>)"
      and q: "Quit \<notin> set evs"
      and c1: "\<forall>e. blob_open env i (file_dest self (names ! i)) = Some e \<longrightarrow> cause = e"
      and c2: "\<forall>e. blob_open env i (file_dest self (names ! i)) = None
                      \<and> blob_close env i (file_dest self (names ! i)) = Some e
                      \<longrightarrow> cause = e"
      and c3: "\<forall>e. blob_open env i (file_dest self (names ! i)) = None
                      \<and> blob_close env i (file_dest self (names ! i)) = None
                      \<and> ftp_retrbinary env i (names ! i) = Some e
                      \<longrightarrow> cause = e"
      and c4: "\<forall>e. blob_open env i (file_dest self (names ! i)) = None
                      \<and> blob_close env i (file_dest self (names ! i)) = None
                      \<and> ftp_retrbinary env i (names ! i) = None
                      \<and> ftp_delete env i (names ! i) = Some e
                      \<longrightarrow> cause = e"
      by (elim exE conjE)
    have t': "transfer_file self env i (names ! i) ?wi
        = (Some cause,
           \<lparr>events = setup_events self c @ concat (map (file_events self) (take i names)) @ evs,
            session = Connected\<rparr>)"
      using t by simp
    from h have ok: "setup_ok self env c" and n: "ftp_nlst env (ftp_file self) = Inr names"
      and i: "i < length names" and pre: "\<forall>j<i. file_ok self env j (names ! j)"
      by simp_all
    have x: "execute self env =
        (Inl (raised_after_quit env (AirflowException (ErrorReadingFile (names ! i) cause))),
         \<lparr>events = setup_events self c @ concat (map (file_events self) (take i names))
                    @ evs @ [Quit],
          session = session_after_quit env\<rparr>)"
      by (rule execute_loop_failure [OF ok n i pre t'])
    from x q c1 c2 c3 c4
    show "\<exists>cause evs.
               execute self env =
                 (Inl (raised_after_quit env
                    (AirflowException (ErrorReadingFile (names ! i) cause))),
                  \<lparr>events = setup_events self c
                       @ concat (map (file_events self) (take i names)) @ evs @ [Quit],
                    session = session_after_quit env\<rparr>)
               \<and> Quit \<notin> set evs
               \<and> (\<forall>e. blob_open env i (file_dest self (names ! i)) = Some e
                      \<longrightarrow> cause = e)
               \<and> (\<forall>e. blob_open env i (file_dest self (names ! i)) = None
                      \<and> blob_close env i (file_dest self (names ! i)) = Some e
                      \<longrightarrow> cause = e)
               \<and> (\<forall>e. blob_open env i (file_dest self (names ! i)) = None
                      \<and> blob_close env i (file_dest self (names ! i)) = None
                      \<and> ftp_retrbinary env i (names ! i) = Some e
                      \<longrightarrow> cause = e)
               \<and> (\<forall>e. blob_open env i (file_dest self (names ! i)) = None
                      \<and> blob_close env i (file_dest self (names ! i)) = None
                      \<and> ftp_retrbinary env i (names ! i) = None
                      \<and> ftp_delete env i (names ! i) = Some e
                      \<longrightarrow> cause = e)"
      by (intro exI conjI)
  qed
  note f = after_quit_cases [of env err]
  from a b c d e f show ?thesis by (intro conjI) (elim conjE, assumption)+
qed

theorem failure_after_connect_quits_once_witness:
  "get_connection_from_secrets
      ((env_ok [''a.csv''])\<lparr>ftp_login := (\<lambda>u p. Some ''530 Login incorrect'')\<rparr>)
      (ftp_conn_id (init ''ftp'' ''out/*.csv'' ''bkt'' None ''gcp'' True))
     = Inr \<lparr>host = ''ftp.example.org'', login = ''user'', password = ''pw''\<rparr>
   \<and> ftp_quit ((env_ok [''a.csv''])\<lparr>ftp_login := (\<lambda>u p. Some ''530 Login incorrect'')\<rparr>)
     = None
   \<and> execute (init ''ftp'' ''out/*.csv'' ''bkt'' None ''gcp'' True)
        ((env_ok [''a.csv''])\<lparr>ftp_login := (\<lambda>u p. Some ''530 Login incorrect'')\<rparr>)
      = (Inl (AirflowException (CannotLogin ''530 Login incorrect'')),
         \<lparr>events = [GetConnection ''ftp'', GetBucket ''bkt'', Connect ''ftp.example.org'',
                    Login ''user'' ''pw'', Quit],
          session = Closed\<rparr>)
   \<and> \<not> file_ok (init ''ftp'' ''out/*.csv'' ''bkt'' None ''gcp'' True)
        ((env_ok [''a.csv''])\<lparr>blob_close := (\<lambda>i k. Some ''503 Upload failed'')\<rparr>)
        0 ''a.csv''
   \<and> fst (execute (init ''ftp'' ''out/*.csv'' ''bkt'' None ''gcp'' True)
        ((env_ok [''a.csv''])\<lparr>blob_close := (\<lambda>i k. Some ''503 Upload failed'')\<rparr>))
      = Inl (AirflowException (ErrorReadingFile ''a.csv'' ''503 Upload failed''))
   \<and> session (snd (execute (init ''ftp'' ''out/*.csv'' ''bkt'' None ''gcp'' True)
        ((env_ok [''a.csv''])\<lparr>blob_close := (\<lambda>i k. Some ''503 Upload failed'')\<rparr>)))
      = Closed
   \<and> deleted (events (snd (execute (init ''ftp'' ''out/*.csv'' ''bkt'' None ''gcp'' True)
        ((env_ok [''a.csv''])\<lparr>blob_close := (\<lambda>i k. Some ''503 Upload failed'')\<rparr>))))
      = []"
proof -
  let ?c = "\<lparr>host = ''ftp.example.org'', login = ''user'', password = ''pw''\<rparr>"
  let ?op = "init ''ftp'' ''out/*.csv'' ''bkt'' None ''gcp'' True"
  let ?envL = "(env_ok [''a.csv''])\<lparr>ftp_login := (\<lambda>u p. Some ''530 Login incorrect'')\<rparr>"
  let ?envB = "(env_ok [''a.csv''])\<lparr>blob_close := (\<lambda>i k. Some ''503 Upload failed'')\<rparr>"
  have l1: "get_connection_from_secrets ?envL (ftp_conn_id ?op) = Inr ?c"
    by (simp add: env_ok_def)
  have l2: "get_bucket ?envL (destination_bucket ?op) = None"
    by (simp add: env_ok_def)
  have l3: "ftp_FTP ?envL (host ?c) = None
      \<and> ftp_login ?envL (login ?c) (password ?c) = Some ''530 Login incorrect''"
    by (simp add: env_ok_def)
  have l4: "ftp_quit ?envL = None" by (simp add: env_ok_def)
  have ids: "ftp_conn_id ?op = ''ftp'' \<and> destination_bucket ?op = ''bkt''"
    by (simp add: run_defs)
  from failure_after_connect_quits_once [OF l1 l2, of "AirflowException (CannotLogin ''530 Login incorrect'')"]
    l3 l4
  have a: "execute ?op ?envL
      = (Inl (AirflowException (CannotLogin ''530 Login incorrect'')),
         \<lparr>events = [GetConnection ''ftp'', GetBucket ''bkt'', Connect ''ftp.example.org'',
                    Login ''user'' ''pw'', Quit],
          session = Closed\<rparr>)"
    using ids by simp
  have b1: "get_connection_from_secrets ?envB (ftp_conn_id ?op) = Inr ?c"
    by (simp add: env_ok_def)
  have b2: "get_bucket ?envB (destination_bucket ?op) = None"
    by (simp add: env_ok_def)
  have b3: "setup_ok ?op ?envB ?c" by (simp add: setup_ok_def env_ok_def)
  have b4: "ftp_nlst ?envB (ftp_file ?op) = Inr [''a.csv'']" by (simp add: env_ok_def)
  have b5: "\<not> file_ok ?op ?envB 0 ''a.csv''" by (simp add: file_ok_def env_ok_def)
  have b6: "blob_open ?envB 0 (file_dest ?op ''a.csv'') = None
      \<and> blob_close ?envB 0 (file_dest ?op ''a.csv'') = Some ''503 Upload failed''"
    by (simp add: env_ok_def)
  have b7: "ftp_quit ?envB = None" by (simp add: env_ok_def)
  from failure_after_connect_quits_once [OF b1 b2,
      of "AirflowException (ErrorReadingFile ''a.csv'' ''503 Upload failed'')"] b3 b4 b5
  have "\<exists>cause evs.
      execute ?op ?envB =
        (Inl (raised_after_quit ?envB (AirflowException (ErrorReadingFile ''a.csv'' cause))),
         \<lparr>events = setup_events ?op ?c @ evs @ [Quit], session = session_after_quit ?envB\<rparr>)
      \<and> Quit \<notin> set evs
      \<and> (\<forall>e. blob_open ?envB 0 (file_dest ?op ''a.csv'') = None
              \<and> blob_close ?envB 0 (file_dest ?op ''a.csv'') = Some e \<longrightarrow> cause = e)"
    by (elim conjE allE [of _ "[''a.csv'']"] allE [of _ "0::nat"]) auto
  then obtain evs where
    x: "execute ?op ?envB =
        (Inl (raised_after_quit ?envB
           (AirflowException (ErrorReadingFile ''a.csv'' ''503 Upload failed''))),
         \<lparr>events = setup_events ?op ?c @ evs @ [Quit], session = session_after_quit ?envB\<rparr>)"
    using b6 by blast
  have d: "deleted (events (snd (execute ?op ?envB))) = []"
    by (simp add: run_defs deleted_def)
  have b: "fst (execute ?op ?envB)
        = Inl (AirflowException (ErrorReadingFile ''a.csv'' ''503 Upload failed''))
      \<and> session (snd (execute ?op ?envB)) = Closed"
    unfolding x using b7 by (simp add: raised_after_quit_def session_after_quit_def)
  from l1 l4 a b5 b d show ?thesis by blast
qed

text \<open>
  Claim C3 as stated fails when the \<open>quit\<close> of a handler raises: after a connect that
  succeeded and a login that failed, \<open>execute\<close> ends in the exception of \<open>quit\<close> and the
  session is still open.
\<close>

theorem failure_with_raising_quit_counterexample:
  "ftp_FTP ((env_ok [''a.csv''])\<lparr>ftp_login := (\<lambda>u p. Some ''530 Login incorrect''),
                                  ftp_quit := Some ''[Errno 32] Broken pipe''\<rparr>)
      ''ftp.example.org'' = None
   \<and> execute (init ''ftp'' ''out/*.csv'' ''bkt'' None ''gcp'' False)
        ((env_ok [''a.csv''])\<lparr>ftp_login := (\<lambda>u p. Some ''530 Login incorrect''),
                              ftp_quit := Some ''[Errno 32] Broken pipe''\<rparr>)
      = (Inl (Raised ''[Errno 32] Broken pipe''),
         \<lparr>events = [GetConnection ''ftp'', GetBucket ''bkt'', Connect ''ftp.example.org'',
                    Login ''user'' ''pw'', Quit],
          session = Connected\<rparr>)"
  by (simp add: run_defs)

text \<open>
  Claim C2, as amended. Let the set-up succeed, let the files before position \<open>i\<close> be
  transferred (and, in move mode, deleted) without error, and let the write stream of file
  \<open>i\<close> open. If \<open>retrbinary\<close> raises for file \<open>i\<close>, or if in move mode its delete raises,
  \<open>execute\<close> calls \<open>quit\<close> exactly once, as its last call, after the calls of the set-up,
  those of the first \<open>i\<close> files in full and those of file \<open>i\<close> up to the failing one:
  nothing is undone and no file after \<open>i\<close> is touched. When \<open>quit\<close> returns, the session
  is closed and \<open>execute\<close> ends in the \<open>AirflowException\<close> \<open>Error reading file\<close> for
  that file, the same one in both cases; when \<open>quit\<close> itself raises, its exception
  propagates instead and the session stays open.
\<close>

theorem loop_failure_stops_the_run:
  assumes "setup_ok self env c" and "ftp_nlst env (ftp_file self) = Inr names"
    and "i < length names"
    and "\<forall>j<i. file_ok self env j (names ! j)"
    and "blob_open env i (file_dest self (names ! i)) = None"
  shows "(ftp_retrbinary env i (names ! i) = Some e \<longrightarrow>
            execute self env =
              (Inl (raised_after_quit env (AirflowException (ErrorReadingFile (names ! i)
                 (case blob_close env i (file_dest self (names ! i)) of
                    Some e' \<Rightarrow> e' | None \<Rightarrow> e)))),
               \<lparr>events = setup_events self c
                    @ concat (map (file_events self) (take i names))
                    @ [OpenBlob (file_dest self (names ! i)), Retrbinary (names ! i),
                       CloseBlob (file_dest self (names ! i))]
                    @ [Quit],
                 session = session_after_quit env\<rparr>))
       \<and> (ftp_retrbinary env i (names ! i) = None
            \<and> blob_close env i (file_dest self (names ! i)) = None
            \<and> move_object self \<and> ftp_delete env i (names ! i) = Some e \<longrightarrow>
            execute self env =
              (Inl (raised_after_quit env
                 (AirflowException (ErrorReadingFile (names ! i) e))),
               \<lparr>events = setup_events self c
                    @ concat (map (file_events self) (take i names))
                    @ [OpenBlob (file_dest self (names ! i)), Retrbinary (names ! i),
                       CloseBlob (file_dest self (names ! i)), Delete (names ! i)]
                    @ [Quit],
                 session = session_after_quit env\<rparr>))
       \<and> (ftp_retrbinary env i (names ! i) = Some e
            \<or> ftp_retrbinary env i (names ! i) = None
              \<and> blob_close env i (file_dest self (names ! i)) = None
              \<and> move_object self \<and> ftp_delete env i (names ! i) = Some e \<longrightarrow>
            count_list (events (snd (execute self env))) Quit = 1
            \<and> last (events (snd (execute self env))) = Quit
            \<and> session (snd (execute self env)) = session_after_quit env
            \<and> opened_keys (events (snd (execute self env)))
                = map (file_dest self) (take (Suc i) names)
            \<and> retrieved (events (snd (execute self env))) = take (Suc i) names)
       \<and> (ftp_quit env = None \<longrightarrow>
            raised_after_quit env err = err \<and> session_after_quit env = Closed)
       \<and> (\<forall>q. ftp_quit env = Some q \<longrightarrow>
            raised_after_quit env err = Raised q \<and> session_after_quit env = Connected)"
proof -
  let ?f = "names ! i"
  let ?k = "file_dest self (names ! i)"
  let ?wi = "\<lparr>events = setup_events self c, session = Connected\<rparr>
         \<lparr>events := setup_events self c @ concat (map (file_events self) (take i names))\<rparr>"
  have sn: "take (Suc i) names = take i names @ [?f]"
    using assms(3) by (rule take_Suc_conv_app_nth)
  have a: "execute self env =
              (Inl (raised_after_quit env (AirflowException (ErrorReadingFile ?f
                 (case blob_close env i ?k of Some e' \<Rightarrow> e' | None \<Rightarrow> e)))),
               \<lparr>events = setup_events self c
                    @ concat (map (file_events self) (take i names))
                    @ [OpenBlob ?k, Retrbinary ?f, CloseBlob ?k] @ [Quit],
                 session = session_after_quit env\<rparr>)"
    if r: "ftp_retrbinary env i ?f = Some e"
  proof -
    have "transfer_file self env i ?f ?wi =
        (Some (case blob_close env i ?k of Some e' \<Rightarrow> e' | None \<Rightarrow> e),
         \<lparr>events = setup_events self c @ concat (map (file_events self) (take i names))
              @ [OpenBlob ?k, Retrbinary ?f, CloseBlob ?k],
          session = Connected\<rparr>)"
      using assms(5) r
      by (simp add: transfer_file_def Let_def record_event_def split: option.splits)
    from execute_loop_failure [OF assms(1) assms(2) assms(3) assms(4) this]
    show ?thesis by simp
  qed
  have b: "execute self env =
              (Inl (raised_after_quit env (AirflowException (ErrorReadingFile ?f e))),
               \<lparr>events = setup_events self c
                    @ concat (map (file_events self) (take i names))
                    @ [OpenBlob ?k, Retrbinary ?f, CloseBlob ?k, Delete ?f] @ [Quit],
                 session = session_after_quit env\<rparr>)"
    if r: "ftp_retrbinary env i ?f = None \<and> blob_close env i ?k = None
        \<and> move_object self \<and> ftp_delete env i ?f = Some e"
  proof -
    have "transfer_file self env i ?f ?wi =
        (Some e,
         \<lparr>events = setup_events self c @ concat (map (file_events self) (take i names))
              @ [OpenBlob ?k, Retrbinary ?f, CloseBlob ?k, Delete ?f],
          session = Connected\<rparr>)"
      using assms(5) r
      by (simp add: transfer_file_def Let_def record_event_def)
    from execute_loop_failure [OF assms(1) assms(2) assms(3) assms(4) this]
    show ?thesis by simp
  qed
  have c: "count_list (events (snd (execute self env))) Quit = 1
            \<and> last (events (snd (execute self env))) = Quit
            \<and> session (snd (execute self env)) = session_after_quit env
            \<and> opened_keys (events (snd (execute self env)))
                = map (file_dest self) (take (Suc i) names)
            \<and> retrieved (events (snd (execute self env))) = take (Suc i) names"
    if r: "ftp_retrbinary env i ?f = Some e
            \<or> ftp_retrbinary env i ?f = None \<and> blob_close env i ?k = None
              \<and> move_object self \<and> ftp_delete env i ?f = Some e"
    using r
  proof
    assume "ftp_retrbinary env i ?f = Some e"
    from a [OF this] show ?thesis
      by (simp add: sn opened_keys_append retrieved_append opened_keys_file_events
          retrieved_file_events count_list_0_iff file_events_no_quit setup_events_no_quit)
        (simp add: opened_keys_def retrieved_def setup_events_def file_events_def)
  next
    assume "ftp_retrbinary env i ?f = None \<and> blob_close env i ?k = None
              \<and> move_object self \<and> ftp_delete env i ?f = Some e"
    from b [OF this] show ?thesis
      by (simp add: sn opened_keys_append retrieved_append opened_keys_file_events
          retrieved_file_events count_list_0_iff file_events_no_quit setup_events_no_quit)
        (simp add: opened_keys_def retrieved_def setup_events_def file_events_def)
  qed
  note d = after_quit_cases [of env err]
  from a b c d show ?thesis by blast
qed

theorem loop_failure_stops_the_run_witness:
  "setup_ok (init ''ftp'' ''out/*.csv'' ''bkt'' (Some ''in'') ''gcp'' True)
      ((env_ok [''a.csv'', ''b.csv''])
         \<lparr>ftp_delete := (\<lambda>i n. if i = 0 then Some ''550 Permission denied'' else None)\<rparr>)
      \<lparr>host = ''ftp.example.org'', login = ''user'', password = ''pw''\<rparr>
   \<and> ftp_quit ((env_ok [''a.csv'', ''b.csv''])
         \<lparr>ftp_delete := (\<lambda>i n. if i = 0 then Some ''550 Permission denied'' else None)\<rparr>)
      = None
   \<and> fst (execute (init ''ftp'' ''out/*.csv'' ''bkt'' (Some ''in'') ''gcp'' True)
        ((env_ok [''a.csv'', ''b.csv''])
           \<lparr>ftp_delete := (\<lambda>i n. if i = 0 then Some ''550 Permission denied'' else None)\<rparr>))
      = Inl (AirflowException (ErrorReadingFile ''a.csv'' ''550 Permission denied''))
   \<and> session (snd (execute (init ''ftp'' ''out/*.csv'' ''bkt'' (Some ''in'') ''gcp'' True)
        ((env_ok [''a.csv'', ''b.csv''])
           \<lparr>ftp_delete := (\<lambda>i n. if i = 0 then Some ''550 Permission denied'' else None)\<rparr>)))
      = Closed
   \<and> count_list (events (snd (execute (init ''ftp'' ''out/*.csv'' ''bkt'' (Some ''in'') ''gcp'' True)
        ((env_ok [''a.csv'', ''b.csv''])
           \<lparr>ftp_delete := (\<lambda>i n. if i = 0 then Some ''550 Permission denied'' else None)\<rparr>))))
        Quit = 1
   \<and> opened_keys (events (snd (execute (init ''ftp'' ''out/*.csv'' ''bkt'' (Some ''in'') ''gcp'' True)
        ((env_ok [''a.csv'', ''b.csv''])
           \<lparr>ftp_delete := (\<lambda>i n. if i = 0 then Some ''550 Permission denied'' else None)\<rparr>))))
      = [''in/a.csv'']
   \<and> file_ok (init ''ftp'' ''out/*.csv'' ''bkt'' (Some ''in'') ''gcp'' False)
        ((env_ok [''a.csv'', ''b.csv'', ''c.csv''])
           \<lparr>ftp_retrbinary := (\<lambda>i n. if i = 1 then Some ''426 Connection closed'' else None)\<rparr>)
        0 ''a.csv''
   \<and> fst (execute (init ''ftp'' ''out/*.csv'' ''bkt'' (Some ''in'') ''gcp'' False)
        ((env_ok [''a.csv'', ''b.csv'', ''c.csv''])
           \<lparr>ftp_retrbinary := (\<lambda>i n. if i = 1 then Some ''426 Connection closed'' else None)\<rparr>))
      = Inl (AirflowException (ErrorReadingFile ''b.csv'' ''426 Connection closed''))
   \<and> count_list (events (snd (execute (init ''ftp'' ''out/*.csv'' ''bkt'' (Some ''in'') ''gcp'' False)
        ((env_ok [''a.csv'', ''b.csv'', ''c.csv''])
           \<lparr>ftp_retrbinary := (\<lambda>i n. if i = 1 then Some ''426 Connection closed'' else None)\<rparr>))))
        Quit = 1
   \<and> retrieved (events (snd (execute (init ''ftp'' ''out/*.csv'' ''bkt'' (Some ''in'') ''gcp'' False)
        ((env_ok [''a.csv'', ''b.csv'', ''c.csv''])
           \<lparr>ftp_retrbinary := (\<lambda>i n. if i = 1 then Some ''426 Connection closed'' else None)\<rparr>))))
      = [''a.csv'', ''b.csv'']"
proof -
  let ?c = "\<lparr>host = ''ftp.example.org'', login = ''user'', password = ''pw''\<rparr>"
  let ?opM = "init ''ftp'' ''out/*.csv'' ''bkt'' (Some ''in'') ''gcp'' True"
  let ?envD = "(env_ok [''a.csv'', ''b.csv''])
         \<lparr>ftp_delete := (\<lambda>i n. if i = 0 then Some ''550 Permission denied'' else None)\<rparr>"
  let ?opC = "init ''ftp'' ''out/*.csv'' ''bkt'' (Some ''in'') ''gcp'' False"
  let ?envR = "(env_ok [''a.csv'', ''b.csv'', ''c.csv''])
         \<lparr>ftp_retrbinary := (\<lambda>i n. if i = 1 then Some ''426 Connection closed'' else None)\<rparr>"
  have d1: "setup_ok ?opM ?envD ?c" by (simp add: setup_ok_def env_ok_def)
  have d2: "ftp_nlst ?envD (ftp_file ?opM) = Inr [''a.csv'', ''b.csv'']"
    by (simp add: env_ok_def)
  have d3: "(0::nat) < length [''a.csv'', ''b.csv'']" by simp
  have d4: "\<forall>j<0. file_ok ?opM ?envD j ([''a.csv'', ''b.csv''] ! j)" by simp
  have d5: "blob_open ?envD 0 (file_dest ?opM ([''a.csv'', ''b.csv''] ! 0)) = None"
    by (simp add: env_ok_def)
  have d6: "ftp_retrbinary ?envD 0 ([''a.csv'', ''b.csv''] ! 0) = None
      \<and> blob_close ?envD 0 (file_dest ?opM ([''a.csv'', ''b.csv''] ! 0)) = None
      \<and> move_object ?opM
      \<and> ftp_delete ?envD 0 ([''a.csv'', ''b.csv''] ! 0) = Some ''550 Permission denied''"
    by (simp add: env_ok_def init_def Let_def)
  have d7: "ftp_quit ?envD = None" by (simp add: env_ok_def)
  have fd: "file_dest ?opM ''a.csv'' = ''in/a.csv''" by (simp add: run_defs)
  from loop_failure_stops_the_run [OF d1 d2 d3 d4 d5, of "''550 Permission denied''"
      "AirflowException (ErrorReadingFile ''a.csv'' ''550 Permission denied'')"] d6 d7
  have a: "fst (execute ?opM ?envD)
        = Inl (AirflowException (ErrorReadingFile ''a.csv'' ''550 Permission denied''))
      \<and> session (snd (execute ?opM ?envD)) = Closed
      \<and> count_list (events (snd (execute ?opM ?envD))) Quit = 1
      \<and> opened_keys (events (snd (execute ?opM ?envD))) = [''in/a.csv'']"
    using fd by (simp add: setup_events_def opened_keys_def retrieved_def)
  have r1: "setup_ok ?opC ?envR ?c" by (simp add: setup_ok_def env_ok_def)
  have r2: "ftp_nlst ?envR (ftp_file ?opC) = Inr [''a.csv'', ''b.csv'', ''c.csv'']"
    by (simp add: env_ok_def)
  have r3: "(1::nat) < length [''a.csv'', ''b.csv'', ''c.csv'']" by simp
  have r4: "\<forall>j<1. file_ok ?opC ?envR j ([''a.csv'', ''b.csv'', ''c.csv''] ! j)"
    by (simp add: file_ok_def env_ok_def init_def Let_def)
  have r5: "blob_open ?envR 1 (file_dest ?opC ([''a.csv'', ''b.csv'', ''c.csv''] ! 1)) = None"
    by (simp add: env_ok_def)
  have r6: "ftp_retrbinary ?envR 1 ([''a.csv'', ''b.csv'', ''c.csv''] ! 1)
      = Some ''426 Connection closed''"
    by (simp add: env_ok_def)
  have r7: "blob_close ?envR 1 (file_dest ?opC ([''a.csv'', ''b.csv'', ''c.csv''] ! 1)) = None"
    by (simp add: env_ok_def)
  have r9: "ftp_quit ?envR = None" by (simp add: env_ok_def)
  from loop_failure_stops_the_run [OF r1 r2 r3 r4 r5, of "''426 Connection closed''"
      "AirflowException (ErrorReadingFile ''b.csv'' ''426 Connection closed'')"] r6 r7 r9
  have b: "fst (execute ?opC ?envR)
        = Inl (AirflowException (ErrorReadingFile ''b.csv'' ''426 Connection closed''))
      \<and> count_list (events (snd (execute ?opC ?envR))) Quit = 1
      \<and> retrieved (events (snd (execute ?opC ?envR))) = [''a.csv'', ''b.csv'']"
    by (simp add: numeral_2_eq_2 setup_events_def opened_keys_def retrieved_def file_events_def)
  have r8: "file_ok ?opC ?envR 0 ''a.csv''"
    by (simp add: file_ok_def env_ok_def init_def Let_def)
  from d1 d7 a r8 b show ?thesis by blast
qed

text \<open>
  Claim C2 as stated fails twice. A failing delete and a failing retrieve of the same file
  end in the same exception value, so no \<open>DeleteError\<close> distinct from the transfer error
  is propagated; and when the \<open>quit\<close> of the handler raises, neither error propagates and
  the session is not closed.
\<close>

theorem delete_failure_not_distinguished_counterexample:
  "ftp_retrbinary ((env_ok [''a.csv'', ''b.csv''])\<lparr>ftp_delete := (\<lambda>i n. Some ''550'')\<rparr>)
      0 ''a.csv'' = None
   \<and> deleted (events (snd (execute (init ''ftp'' ''out/*.csv'' ''bkt'' (Some ''in'') ''gcp'' True)
        ((env_ok [''a.csv'', ''b.csv''])\<lparr>ftp_delete := (\<lambda>i n. Some ''550'')\<rparr>))))
      = [''a.csv'']
   \<and> fst (execute (init ''ftp'' ''out/*.csv'' ''bkt'' (Some ''in'') ''gcp'' True)
        ((env_ok [''a.csv'', ''b.csv''])\<lparr>ftp_delete := (\<lambda>i n. Some ''550'')\<rparr>))
      = Inl (AirflowException (ErrorReadingFile ''a.csv'' ''550''))
   \<and> deleted (events (snd (execute (init ''ftp'' ''out/*.csv'' ''bkt'' (Some ''in'') ''gcp'' True)
        ((env_ok [''a.csv'', ''b.csv''])\<lparr>ftp_retrbinary := (\<lambda>i n. Some ''550'')\<rparr>))))
      = []
   \<and> fst (execute (init ''ftp'' ''out/*.csv'' ''bkt'' (Some ''in'') ''gcp'' True)
        ((env_ok [''a.csv'', ''b.csv''])\<lparr>ftp_retrbinary := (\<lambda>i n. Some ''550'')\<rparr>))
      = Inl (AirflowException (ErrorReadingFile ''a.csv'' ''550''))
   \<and> execute (init ''ftp'' ''out/*.csv'' ''bkt'' (Some ''in'') ''gcp'' True)
        ((env_ok [''a.csv'', ''b.csv''])\<lparr>ftp_retrbinary := (\<lambda>i n. Some ''426''),
                                        ftp_quit := Some ''[Errno 32] Broken pipe''\<rparr>)
      = (Inl (Raised ''[Errno 32] Broken pipe''),
         \<lparr>events = [GetConnection ''ftp'', GetBucket ''bkt'', Connect ''ftp.example.org'',
                    Login ''user'' ''pw'', Cwd ''out'', Nlst ''*.csv'',
                    OpenBlob ''in/a.csv'', Retrbinary ''a.csv'', CloseBlob ''in/a.csv'', Quit],
          session = Connected\<rparr>)"
  by (simp add: run_defs deleted_def)

section \<open>Destination keys and the order of the transfers\<close>

lemma execute_not_setup:
  assumes "\<forall>c. \<not> setup_ok self env c" and "execute self env = (r, w)"
  shows "opened_keys (events w) = [] \<and> retrieved (events w) = [] \<and> r \<noteq> Inr ()"
proof (cases "get_connection_from_secrets env (ftp_conn_id self)")
  case (Inl e)
  with assms(2) show ?thesis
    by (auto simp: execute_def Let_def record_event_def initial_world_def
        opened_keys_def retrieved_def)
next
  case c: (Inr c)
  from assms(1) have n: "\<not> setup_ok self env c" by blast
  with c assms(2) show ?thesis
    by (cases "get_bucket env (destination_bucket self)"; cases "ftp_FTP env (host c)";
        cases "ftp_login env (login c) (password c)"; cases "ftp_cwd env (ftp_folder self)")
      (auto simp: execute_def setup_ok_def Let_def record_event_def initial_world_def
        quit_then_raise_eq opened_keys_def retrieved_def)
qed

text \<open>
  Claim C1. In every run whose listing is \<open>names\<close>, the write streams are opened, in
  listing order, for a prefix of \<open>names\<close>, each under the key \<open>prefix/name\<close> when the
  stored destination prefix is not empty and under the bare \<open>name\<close> when it is; the files
  retrieved are a prefix of \<open>names\<close> in the same order; when the run succeeds, both
  prefixes are the whole listing.
\<close>

theorem destination_keys_in_listing_order:
  assumes "ftp_nlst env (ftp_file self) = Inr names" and "execute self env = (r, w)"
  shows "\<exists>m k. k \<le> m \<and> m \<le> length names
      \<and> opened_keys (events w) =
          map (\<lambda>name. if destination_path self = [] then name
                      else destination_path self @ ''/'' @ name) (take m names)
      \<and> retrieved (events w) = take k names
      \<and> (r = Inr () \<longrightarrow> m = length names \<and> k = length names)"
proof -
  have main: "\<exists>m k. k \<le> m \<and> m \<le> length names
      \<and> opened_keys (events w) = map (file_dest self) (take m names)
      \<and> retrieved (events w) = take k names
      \<and> (r = Inr () \<longrightarrow> m = length names \<and> k = length names)"
  proof (cases "\<exists>c. setup_ok self env c")
    case False
    then have "opened_keys (events w) = [] \<and> retrieved (events w) = [] \<and> r \<noteq> Inr ()"
      using execute_not_setup assms(2) by blast
    then have "(0::nat) \<le> 0 \<and> 0 \<le> length names
      \<and> opened_keys (events w) = map (file_dest self) (take 0 names)
      \<and> retrieved (events w) = take 0 names
      \<and> (r = Inr () \<longrightarrow> 0 = length names \<and> 0 = length names)"
      by simp
    then show ?thesis by blast
  next
    case True
    then obtain c where ok: "setup_ok self env c" by blast
    let ?w5 = "\<lparr>events = [GetConnection (ftp_conn_id self),
                  GetBucket (destination_bucket self), Connect (host c),
                  Login (login c) (password c), Cwd (ftp_folder self)],
                session = Connected\<rparr>"
    obtain r6 w6 where t: "try_transfer self env ?w5 = (r6, w6)"
      by (cases "try_transfer self env ?w5")
    have "\<exists>evs. events w6 = events ?w5 @ Nlst (ftp_file self) # evs
        \<and> (\<forall>names. ftp_nlst env (ftp_file self) = Inr names \<longrightarrow>
              (\<exists>m k. k \<le> m \<and> m \<le> length names
                 \<and> opened_keys evs = map (file_dest self) (take m names)
                 \<and> retrieved evs = take k names
                 \<and> (r6 = None \<longrightarrow> m = length names \<and> k = length names)))"
      using try_transfer_events [OF t] by (elim conjE exE) (rule exI, rule conjI)
    then obtain evs m k where
      e6: "events w6 = events ?w5 @ Nlst (ftp_file self) # evs"
      and km: "k \<le> m" "m \<le> length names"
      and o: "opened_keys evs = map (file_dest self) (take m names)"
      and rr: "retrieved evs = take k names"
      and n: "r6 = None \<longrightarrow> m = length names \<and> k = length names"
      using assms(1) by blast
    have "events w = events w6 @ [Quit] \<and> (r = Inr () \<longrightarrow> r6 = None)"
      using assms(2) unfolding execute_after_setup [OF ok t]
      by (cases r6) auto
    then have wq: "events w = events ?w5 @ Nlst (ftp_file self) # evs @ [Quit]"
      and rn: "r = Inr () \<longrightarrow> r6 = None"
      using e6 by simp_all
    from wq
    have "opened_keys (events w) = opened_keys evs \<and> retrieved (events w) = retrieved evs"
      by (simp add: opened_keys_def retrieved_def)
    with km o rr n rn show ?thesis by auto
  qed
  then show ?thesis by (simp add: file_dest_eq)
qed

theorem destination_keys_in_listing_order_witness:
  "ftp_nlst (env_ok [''a.csv'', ''b.csv''])
      (ftp_file (init ''ftp'' ''out/*.csv'' ''bkt'' (Some ''in'') ''gcp'' False))
     = Inr [''a.csv'', ''b.csv'']
   \<and> fst (execute (init ''ftp'' ''out/*.csv'' ''bkt'' (Some ''in'') ''gcp'' False)
        (env_ok [''a.csv'', ''b.csv''])) = Inr ()
   \<and> opened_keys (events (snd (execute
        (init ''ftp'' ''out/*.csv'' ''bkt'' (Some ''in'') ''gcp'' False)
        (env_ok [''a.csv'', ''b.csv''])))) = [''in/a.csv'', ''in/b.csv'']
   \<and> retrieved (events (snd (execute
        (init ''ftp'' ''out/*.csv'' ''bkt'' (Some ''in'') ''gcp'' False)
        (env_ok [''a.csv'', ''b.csv''])))) = [''a.csv'', ''b.csv'']"
proof -
  let ?op = "init ''ftp'' ''out/*.csv'' ''bkt'' (Some ''in'') ''gcp'' False"
  let ?env = "env_ok [''a.csv'', ''b.csv'']"
  have h1: "ftp_nlst ?env (ftp_file ?op) = Inr [''a.csv'', ''b.csv'']"
    by (simp add: env_ok_def)
  have h2: "execute ?op ?env = (fst (execute ?op ?env), snd (execute ?op ?env))"
    by simp
  have r: "fst (execute ?op ?env) = Inr ()"
    by (simp add: run_defs)
  have d: "destination_path ?op = ''in''"
    by (simp add: run_defs)
  from destination_keys_in_listing_order [OF h1 h2] r d
  have "opened_keys (events (snd (execute ?op ?env))) = [''in/a.csv'', ''in/b.csv'']
      \<and> retrieved (events (snd (execute ?op ?env))) = [''a.csv'', ''b.csv'']"
    by auto
  with h1 r show ?thesis by blast
qed

section \<open>The stored bucket name and destination path\<close>

lemma set_bucket_name_strip:
  "set_bucket_name name =
     strip (if startswith name ''gs://'' then drop 5 name else name) ''/''"
  by (simp add: set_bucket_name_def)

lemma set_destination_path_no_lead: "\<not> startswith (set_destination_path d) ''/''"
proof (cases d)
  case None
  then show ?thesis by (simp add: set_destination_path_def startswith_def)
next
  case (Some p)
  then show ?thesis
    unfolding Some set_destination_path_Some by (simp add: lstrip_no_lead)
qed

lemma set_destination_path_no_trail: "\<not> endswith (set_destination_path d) ''/''"
proof (cases d)
  case None
  then show ?thesis by (simp add: set_destination_path_def endswith_def)
next
  case (Some p)
  show ?thesis
    unfolding Some set_destination_path_Some
    by (rule lstrip_keeps_no_trail) (rule rstrip_no_trail)
qed

text \<open>
  Claim C4, as amended. \<open>_set_bucket_name\<close> drops exactly the five characters of a leading
  \<open>gs://\<close> and then strips leading and trailing slashes: what remains after the marker is
  the result between two runs of slashes, and the result neither starts nor ends with a
  slash. It returns the result also when it is empty (for \<open>gs://\<close> and for \<open>///\<close>), and
  the constructor stores it as it is.
\<close>

theorem set_bucket_name_strips:
  "set_bucket_name (''gs://'' @ r) = strip r ''/''
   \<and> (\<not> startswith name ''gs://'' \<longrightarrow> set_bucket_name name = strip name ''/'')
   \<and> (\<exists>n k. (if startswith name ''gs://'' then drop 5 name else name)
              = replicate n CHR ''/'' @ set_bucket_name name @ replicate k CHR ''/'')
   \<and> \<not> startswith (set_bucket_name name) ''/''
   \<and> \<not> endswith (set_bucket_name name) ''/''
   \<and> set_bucket_name ''gs://'' = '''' \<and> set_bucket_name ''///'' = ''''
   \<and> destination_bucket (init f p name d g m) = set_bucket_name name"
proof -
  have a: "set_bucket_name (''gs://'' @ r) = strip r ''/''"
    by (rule set_bucket_name_scheme)
  have b: "\<not> startswith name ''gs://'' \<longrightarrow> set_bucket_name name = strip name ''/''"
    by (simp add: set_bucket_name_bare)
  have c: "\<exists>n k. (if startswith name ''gs://'' then drop 5 name else name)
              = replicate n CHR ''/'' @ set_bucket_name name @ replicate k CHR ''/''"
    unfolding set_bucket_name_strip by (rule strip_decomp)
  have d: "\<not> startswith (set_bucket_name name) ''/''"
    unfolding set_bucket_name_strip by (rule strip_no_lead)
  have e: "\<not> endswith (set_bucket_name name) ''/''"
    unfolding set_bucket_name_strip by (rule strip_no_trail)
  have f: "set_bucket_name ''gs://'' = '''' \<and> set_bucket_name ''///'' = ''''"
    by (simp add: set_bucket_name_def startswith_def strip_def lstrip_def rstrip_def)
  have g: "destination_bucket (init f p name d g m) = set_bucket_name name"
    by (simp add: init_def Let_def)
  from a b c d e f g show ?thesis by blast
qed

theorem set_bucket_name_strips_witness:
  "\<not> startswith ''/my-bucket//'' ''gs://''
   \<and> set_bucket_name ''/my-bucket//'' = ''my-bucket''
   \<and> set_bucket_name (''gs://'' @ ''my-bucket/'') = ''my-bucket''"
proof -
  have h: "\<not> startswith ''/my-bucket//'' ''gs://''" by (simp add: startswith_def)
  have s1: "strip ''/my-bucket//'' ''/'' = ''my-bucket''"
    by (simp add: strip_def lstrip_def rstrip_def)
  have s2: "strip ''my-bucket/'' ''/'' = ''my-bucket''"
    by (simp add: strip_def lstrip_def rstrip_def)
  from set_bucket_name_strips [of "''my-bucket/''" "''/my-bucket//''"] h s1 s2
  show ?thesis by simp
qed

text \<open>
  Claim C4 as stated fails: for the raw name \<open>gs://\<close> the constructor stores the empty
  bucket name without any error, and \<open>execute\<close> goes on to ask the storage client for the
  bucket with the empty name and to open the FTP session.
\<close>

theorem empty_bucket_not_rejected_counterexample:
  "set_bucket_name ''gs://'' = '''' \<and> set_bucket_name ''///'' = ''''
   \<and> destination_bucket (init ''ftp'' ''out/*.csv'' ''gs://'' None ''gcp'' False) = ''''
   \<and> execute (init ''ftp'' ''out/*.csv'' ''gs://'' None ''gcp'' False) (env_ok []) =
       (Inr (),
        \<lparr>events = [GetConnection ''ftp'', GetBucket '''', Connect ''ftp.example.org'',
                   Login ''user'' ''pw'', Cwd ''out'', Nlst ''*.csv'', Quit],
         session = Closed\<rparr>)"
  by (simp add: run_defs)

text \<open>
  Claim C6, as amended. For every constructed operator the stored destination path never
  starts or ends with \<open>/\<close>, and the stored bucket never starts or ends with \<open>/\<close>; the
  stored bucket has no \<open>gs://\<close> prefix when the raw name is \<open>b\<close> or \<open>gs://b\<close> for a
  \<open>b\<close> that starts neither with a slash nor with \<open>gs://\<close>.
\<close>

theorem stored_paths_never_slash_delimited:
  "\<not> startswith (destination_path (init f p b d g m)) ''/''
   \<and> \<not> endswith (destination_path (init f p b d g m)) ''/''
   \<and> \<not> startswith (destination_bucket (init f p b d g m)) ''/''
   \<and> \<not> endswith (destination_bucket (init f p b d g m)) ''/''
   \<and> (\<not> startswith b ''/'' \<and> \<not> startswith b ''gs://'' \<longrightarrow>
        \<not> startswith (destination_bucket (init f p b d g m)) ''gs://''
        \<and> \<not> startswith (destination_bucket (init f p (''gs://'' @ b) d g m)) ''gs://'')"
proof -
  have dp: "destination_path (init f p b d g m) = set_destination_path d"
    by (simp add: init_def Let_def)
  have db: "\<And>x. destination_bucket (init f p x d g m) = set_bucket_name x"
    by (simp add: init_def Let_def)
  have a: "\<not> startswith (destination_path (init f p b d g m)) ''/''"
    unfolding dp by (rule set_destination_path_no_lead)
  have b: "\<not> endswith (destination_path (init f p b d g m)) ''/''"
    unfolding dp by (rule set_destination_path_no_trail)
  have c: "\<not> startswith (destination_bucket (init f p b d g m)) ''/''"
    unfolding db set_bucket_name_strip by (rule strip_no_lead)
  have d: "\<not> endswith (destination_bucket (init f p b d g m)) ''/''"
    unfolding db set_bucket_name_strip by (rule strip_no_trail)
  have e: "\<not> startswith (destination_bucket (init f p b d g m)) ''gs://''
        \<and> \<not> startswith (destination_bucket (init f p (''gs://'' @ b) d g m)) ''gs://''"
    if h: "\<not> startswith b ''/'' \<and> \<not> startswith b ''gs://''"
  proof -
    from h have l: "lstrip b ''/'' = b" by (simp add: lstrip_id)
    have s: "strip b ''/'' = rstrip b ''/''" by (simp add: strip_def l)
    have n: "\<not> startswith (rstrip b ''/'') ''gs://''"
      using h startswith_rstrip by blast
    have "set_bucket_name b = rstrip b ''/''"
      using h s by (simp add: set_bucket_name_bare)
    moreover have "set_bucket_name (''gs://'' @ b) = rstrip b ''/''"
      using s set_bucket_name_scheme [of b] by simp
    ultimately show ?thesis unfolding db using n by simp
  qed
  from a b c d e show ?thesis by blast
qed

theorem stored_paths_never_slash_delimited_witness:
  "\<not> startswith ''my-bucket/'' ''/'' \<and> \<not> startswith ''my-bucket/'' ''gs://''
   \<and> destination_bucket
        (init ''ftp'' ''out/*.csv'' (''gs://'' @ ''my-bucket/'') (Some ''//in//'') ''gcp'' False)
      = ''my-bucket''
   \<and> destination_path
        (init ''ftp'' ''out/*.csv'' (''gs://'' @ ''my-bucket/'') (Some ''//in//'') ''gcp'' False)
      = ''in''
   \<and> \<not> startswith (destination_bucket
        (init ''ftp'' ''out/*.csv'' (''gs://'' @ ''my-bucket/'') (Some ''//in//'') ''gcp'' False))
        ''gs://''
   \<and> \<not> startswith (destination_bucket
        (init ''ftp'' ''out/*.csv'' ''my-bucket/'' (Some ''//in//'') ''gcp'' False)) ''gs://''"
proof -
  have h: "\<not> startswith ''my-bucket/'' ''/'' \<and> \<not> startswith ''my-bucket/'' ''gs://''"
    by (simp add: startswith_def)
  have v: "destination_bucket
        (init ''ftp'' ''out/*.csv'' (''gs://'' @ ''my-bucket/'') (Some ''//in//'') ''gcp'' False)
      = ''my-bucket''
    \<and> destination_path
        (init ''ftp'' ''out/*.csv'' (''gs://'' @ ''my-bucket/'') (Some ''//in//'') ''gcp'' False)
      = ''in''"
    by (simp add: run_defs)
  from stored_paths_never_slash_delimited
    [of "''ftp''" "''out/*.csv''" "''my-bucket/''" "Some ''//in//''" "''gcp''" False] h
  have "\<not> startswith (destination_bucket
        (init ''ftp'' ''out/*.csv'' (''gs://'' @ ''my-bucket/'') (Some ''//in//'') ''gcp'' False))
        ''gs://''
   \<and> \<not> startswith (destination_bucket
        (init ''ftp'' ''out/*.csv'' ''my-bucket/'' (Some ''//in//'') ''gcp'' False)) ''gs://''"
    by blast
  with h v show ?thesis by blast
qed

text \<open>
  Claim C6 as stated fails: only one leading marker is removed, so the raw name
  \<open>gs://gs://bkt\<close> is stored as \<open>gs://bkt\<close>.
\<close>

theorem stored_bucket_scheme_counterexample:
  "startswith (destination_bucket
      (init ''ftp'' ''out/*.csv'' ''gs://gs://bkt'' None ''gcp'' False)) ''gs://''"
  by (simp add: run_defs)

end
